theory Spec2Isabelle
  imports Complex_Main "HOL-Library.Char_ord" "HOL-Library.List_Lexorder"
begin

section \<open>Data model of \<^verbatim>\<open>src/services/GeofenceService.ts\<close>\<close>

text \<open>
  Coordinates and radii are finite JavaScript numbers, each written as the real number it
  stands for (a decimal literal of the source as that decimal). What the module
  calculates from them is calculated in the arithmetic of the engine, which is a
  parameter of the model (section Numbers). Strings are byte lists, as the
  source file holds them; the default order on them (lexicographic, characters by code)
  is the order of \<^verbatim>\<open>Array.prototype.sort()\<close>.
\<close>

datatype DisasterType = FLOOD | FIRE | EVACUATION | STORM | EARTHQUAKE

datatype SeverityLevel = INFO | WARNING | HIGH | CRITICAL

text \<open>\<^verbatim>\<open>Notifications.AndroidNotificationPriority\<close> of expo-notifications.\<close>

datatype AndroidNotificationPriority = P_MIN | P_LOW | P_DEFAULT | P_HIGH | P_MAX

record DisasterGeofence =
  "identifier" :: string
  type :: DisasterType
  severity :: SeverityLevel
  latitude :: real
  longitude :: real
  radius :: real
  notifyOnEnter :: bool
  notifyOnExit :: bool
  description :: string

definition TEST_GEOFENCES :: "DisasterGeofence list" where
  "TEST_GEOFENCES =
    [\<lparr>identifier = ''flood-derby-center'', type = FLOOD, severity = HIGH,
       latitude = 52.9225, longitude = -1.4746, radius = 1000,
       notifyOnEnter = True, notifyOnExit = True,
       description = ''Derby City Centre - High Flood Risk Zone''\<rparr>,
     \<lparr>identifier = ''evacuation-zone-north'', type = EVACUATION, severity = CRITICAL,
       latitude = 52.93, longitude = -1.48, radius = 800,
       notifyOnEnter = True, notifyOnExit = True,
       description = ''North Derby - Mandatory Evacuation Zone''\<rparr>,
     \<lparr>identifier = ''fire-risk-west'', type = FIRE, severity = WARNING,
       latitude = 52.918, longitude = -1.49, radius = 800,
       notifyOnEnter = True, notifyOnExit = True,
       description = ''West Derby - Wildfire Risk Area''\<rparr>,
     \<lparr>identifier = ''storm-warning-east'', type = STORM, severity = WARNING,
       latitude = 52.925, longitude = -1.46, radius = 1000,
       notifyOnEnter = True, notifyOnExit = True,
       description = ''East Derby - Severe Storm Warning''\<rparr>]"

text \<open>\<^verbatim>\<open>Location.LocationRegion\<close>: the identifier and the two flags are optional there;
  the flags are always given where this module builds a region.\<close>

record LocationRegion =
  r_identifier :: "string option"
  r_latitude :: real
  r_longitude :: real
  r_radius :: real
  r_notifyOnEnter :: bool
  r_notifyOnExit :: bool

text \<open>The coordinates of a \<^verbatim>\<open>Location.LocationObject\<close>.\<close>

record LocationObject =
  loc_latitude :: real
  loc_longitude :: real

datatype EventType = ENTER | EXIT

record GeofenceEvent =
  e_type :: EventType
  e_timestamp :: string
  e_region :: "LocationRegion option"
  e_location :: "(real \<times> real) option"
  e_disasterType :: "DisasterType option"
  e_severity :: "SeverityLevel option"
  e_zoneName :: "string option"

text \<open>\<^verbatim>\<open>Location.GeofencingEventType\<close> (Enter = 1, Exit = 2: both truthy).\<close>

datatype GeofencingEventType = Enter | Exit

record GeofenceTaskData =
  eventType :: "GeofencingEventType option"
  region :: "LocationRegion option"

record AlertContent =
  title :: string
  body :: string
  actionText :: string
  sound :: bool
  priority :: AndroidNotificationPriority

text \<open>The argument of \<^verbatim>\<open>sendAlertNotification\<close>, its \<^verbatim>\<open>data\<close> payload flattened.\<close>

record Notification =
  n_title :: string
  n_body :: string
  n_sound :: bool
  n_priority :: AndroidNotificationPriority
  n_type :: DisasterType
  n_severity :: SeverityLevel
  n_action :: string
  n_zoneName :: string
  n_event :: EventType
  n_geofenceId :: string
  n_timestamp :: string
  n_source :: string

record ZoneState =
  insideZones :: "string list"
  lastUpdated :: string

datatype Diagnostic = Warn string | Err string

text \<open>
  The state the module works on: the two AsyncStorage keys (\<open>None\<close>: the key is absent),
  the notifications handed to the notification channel and the \<^verbatim>\<open>console.warn\<close> /
  \<^verbatim>\<open>console.error\<close> diagnostics (both oldest first), the registration of the background
  geofencing task with its regions, and whether the module variable
  \<^verbatim>\<open>locationSubscription\<close> holds a subscription. AsyncStorage and the notification
  channel are taken to be reliable: their calls do not throw.
\<close>

record world =
  zone_store :: "ZoneState option"
  logs_store :: "GeofenceEvent list option"
  sent :: "Notification list"
  console :: "Diagnostic list"
  task_registered :: bool
  registered_regions :: "LocationRegion list"
  locationSubscription :: bool

section \<open>Notification composer\<close>

definition exitAlert :: AlertContent where
  "exitAlert =
    \<lparr>title = ''Safe Zone'',
     body = ''You have exited the emergency zone. Stay alert and monitor updates.'',
     actionText = ''You are now in a safer area'',
     sound = True, priority = P_DEFAULT\<rparr>"

fun alerts :: "DisasterType \<Rightarrow> SeverityLevel \<Rightarrow> AlertContent" where
  "alerts FLOOD INFO =
    \<lparr>title = ''Flood Information'',
     body = ''You are entering a flood watch area. Monitor weather conditions.'',
     actionText = ''Stay informed about weather updates'',
     sound = True, priority = P_DEFAULT\<rparr>"
| "alerts FLOOD WARNING =
    \<lparr>title = ''Flood Warning'',
     body = ''FLOOD WARNING: Avoid low-lying areas. Do not drive through water.'',
     actionText = ''Move to higher ground if needed'',
     sound = True, priority = P_HIGH\<rparr>"
| "alerts FLOOD HIGH =
    \<lparr>title = ''HIGH FLOOD RISK'',
     body = ''DANGER: High flood risk zone. Move to higher ground immediately. Avoid water.'',
     actionText = ''Evacuate to higher ground NOW'',
     sound = True, priority = P_MAX\<rparr>"
| "alerts FLOOD CRITICAL =
    \<lparr>title = ''CRITICAL FLOOD DANGER'',
     body = ''LIFE-THREATENING FLOODING. Evacuate immediately to high ground. Call 999 if trapped.'',
     actionText = ''EVACUATE NOW - Life threatening'',
     sound = True, priority = P_MAX\<rparr>"
| "alerts FIRE INFO =
    \<lparr>title = ''Fire Watch'',
     body = ''Fire watch area. Be aware of smoke and follow local guidance.'',
     actionText = ''Monitor air quality'',
     sound = True, priority = P_DEFAULT\<rparr>"
| "alerts FIRE WARNING =
    \<lparr>title = ''Fire Warning'',
     body = ''WILDFIRE WARNING: Stay indoors. Close windows. Prepare to evacuate.'',
     actionText = ''Prepare evacuation kit'',
     sound = True, priority = P_HIGH\<rparr>"
| "alerts FIRE HIGH =
    \<lparr>title = ''HIGH FIRE DANGER'',
     body = ''EXTREME FIRE RISK: Evacuate if ordered. Have go-bag ready. Close all windows.'',
     actionText = ''Be ready to evacuate'',
     sound = True, priority = P_MAX\<rparr>"
| "alerts FIRE CRITICAL =
    \<lparr>title = ''FIRE EVACUATION'',
     body = ''IMMEDIATE EVACUATION REQUIRED. Leave now. Do not return. Call 999 for help.'',
     actionText = ''LEAVE IMMEDIATELY'',
     sound = True, priority = P_MAX\<rparr>"
| "alerts EVACUATION INFO =
    \<lparr>title = ''Evacuation Notice'',
     body = ''Evacuation may be required. Stay informed and prepare essentials.'',
     actionText = ''Prepare evacuation plan'',
     sound = True, priority = P_DEFAULT\<rparr>"
| "alerts EVACUATION WARNING =
    \<lparr>title = ''Evacuation Warning'',
     body = ''EVACUATION LIKELY: Pack essentials. Identify evacuation routes. Stand by.'',
     actionText = ''Prepare to leave soon'',
     sound = True, priority = P_HIGH\<rparr>"
| "alerts EVACUATION HIGH =
    \<lparr>title = ''Evacuation Order'',
     body = ''MANDATORY EVACUATION: Leave immediately. Take essentials only. Follow official routes.'',
     actionText = ''EVACUATE NOW'',
     sound = True, priority = P_MAX\<rparr>"
| "alerts EVACUATION CRITICAL =
    \<lparr>title = ''IMMEDIATE EVACUATION'',
     body = ''LIFE-THREATENING SITUATION. Leave NOW. Do not delay. Call 999 if unable to evacuate.'',
     actionText = ''LEAVE IMMEDIATELY - Critical'',
     sound = True, priority = P_MAX\<rparr>"
| "alerts STORM INFO =
    \<lparr>title = ''Storm Watch'',
     body = ''Storm conditions possible. Secure loose objects. Stay updated.'',
     actionText = ''Prepare for storm'',
     sound = True, priority = P_DEFAULT\<rparr>"
| "alerts STORM WARNING =
    \<lparr>title = ''Storm Warning'',
     body = ''SEVERE STORM: Stay indoors. Avoid windows. Secure outdoor items.'',
     actionText = ''Take shelter indoors'',
     sound = True, priority = P_HIGH\<rparr>"
| "alerts STORM HIGH =
    \<lparr>title = ''SEVERE STORM'',
     body = ''DANGEROUS STORM: Move to interior room. Stay away from windows. Avoid travel.'',
     actionText = ''Shelter in safe location'',
     sound = True, priority = P_MAX\<rparr>"
| "alerts STORM CRITICAL =
    \<lparr>title = ''EXTREME STORM'',
     body = ''LIFE-THREATENING STORM. Take shelter immediately in basement or interior room. Call 999 for emergencies.'',
     actionText = ''TAKE SHELTER NOW'',
     sound = True, priority = P_MAX\<rparr>"
| "alerts EARTHQUAKE INFO =
    \<lparr>title = ''Earthquake Information'',
     body = ''Recent seismic activity detected. Review earthquake safety procedures.'',
     actionText = ''Review safety procedures'',
     sound = True, priority = P_DEFAULT\<rparr>"
| "alerts EARTHQUAKE WARNING =
    \<lparr>title = ''Earthquake Alert'',
     body = ''EARTHQUAKE RISK: Secure heavy objects. Know safe spots. Drop, Cover, Hold On.'',
     actionText = ''Be prepared to take cover'',
     sound = True, priority = P_HIGH\<rparr>"
| "alerts EARTHQUAKE HIGH =
    \<lparr>title = ''Earthquake Zone'',
     body = ''HIGH EARTHQUAKE RISK: Identify safe areas. Prepare for aftershocks. Stay alert.'',
     actionText = ''Drop, Cover, Hold On if shaking'',
     sound = True, priority = P_MAX\<rparr>"
| "alerts EARTHQUAKE CRITICAL =
    \<lparr>title = ''EARTHQUAKE EMERGENCY'',
     body = ''MAJOR EARTHQUAKE: Drop, Cover, Hold On. Stay away from buildings. Expect aftershocks.'',
     actionText = ''TAKE COVER - Stay safe'',
     sound = True, priority = P_MAX\<rparr>"

definition getDisasterAlertContent ::
  "DisasterType \<Rightarrow> SeverityLevel \<Rightarrow> bool \<Rightarrow> AlertContent" where
  "getDisasterAlertContent ty sev isEntering =
    (if \<not> isEntering then exitAlert else alerts ty sev)"

text \<open>
  The non-ASCII prefixes of the title templates and of three console messages, byte for
  byte as the source file has them, each followed by a space.
\<close>

definition enterPrefix :: string where
  "enterPrefix =
    [CHR 0xE2, CHR 0x80, CHR 0x9A, CHR 0xC3, CHR 0xB6, CHR 0xE2, CHR 0x80, CHR 0xA0,
     CHR 0xC3, CHR 0x94, CHR 0xE2, CHR 0x88, CHR 0x8F, CHR 0xC3, CHR 0xA8, CHR '' '']"

definition exitPrefix :: string where
  "exitPrefix = [CHR 0xE2, CHR 0x80, CHR 0x9A, CHR 0xC3, CHR 0xBA, CHR 0xC3, CHR 0x96, CHR '' '']"

definition errorPrefix :: string where
  "errorPrefix = [CHR 0xE2, CHR 0x80, CHR 0x9A, CHR 0xC3, CHR 0xB9, CHR 0xC3, CHR 0xA5, CHR '' '']"

section \<open>Catalog lookup, event log, notification dispatch\<close>

text \<open>
  The module constant \<^verbatim>\<open>TEST_GEOFENCES\<close> is passed to every function that reads it as
  the parameter \<open>zones\<close>, so that the results hold for every catalog. The clock
  (\<^verbatim>\<open>new Date().toISOString()\<close>) is the parameter \<open>now\<close> of each operation.
\<close>

definition getGeofenceDetails :: "DisasterGeofence list \<Rightarrow> string \<Rightarrow> DisasterGeofence option" where
  "getGeofenceDetails zones ident = find (\<lambda>g. identifier g = ident) zones"

text \<open>\<^verbatim>\<open>logs.unshift(event); if (logs.length > 50) logs.pop();\<close>\<close>

definition pushLog :: "GeofenceEvent \<Rightarrow> GeofenceEvent list \<Rightarrow> GeofenceEvent list" where
  "pushLog event existing =
    (let logs = event # existing in if length logs > 50 then butlast logs else logs)"

definition getLogs :: "world \<Rightarrow> GeofenceEvent list" where
  "getLogs w = (case logs_store w of Some logs \<Rightarrow> logs | None \<Rightarrow> [])"

definition logEvent :: "GeofenceEvent \<Rightarrow> world \<Rightarrow> world" where
  "logEvent event w =
    (let logs = (case logs_store w of Some existingLogs \<Rightarrow> existingLogs | None \<Rightarrow> [])
     in w\<lparr>logs_store := Some (pushLog event logs)\<rparr>)"

definition sendAlertNotification :: "Notification \<Rightarrow> world \<Rightarrow> world" where
  "sendAlertNotification args w = w\<lparr>sent := sent w @ [args]\<rparr>"

text \<open>\<^verbatim>\<open>console.warn\<close> and \<^verbatim>\<open>console.error\<close>, with the first argument of the call.\<close>

definition consoleWarn :: "string \<Rightarrow> world \<Rightarrow> world" where
  "consoleWarn msg w = w\<lparr>console := console w @ [Warn msg]\<rparr>"

definition consoleError :: "string \<Rightarrow> world \<Rightarrow> world" where
  "consoleError msg w = w\<lparr>console := console w @ [Err msg]\<rparr>"

section \<open>Zone state tracking\<close>

definition getZoneState :: "string \<Rightarrow> world \<Rightarrow> ZoneState" where
  "getZoneState now w =
    (case zone_store w of
       Some state \<Rightarrow> state
     | None \<Rightarrow> \<lparr>insideZones = [], lastUpdated = now\<rparr>)"

definition setZoneState :: "ZoneState \<Rightarrow> world \<Rightarrow> world" where
  "setZoneState state w = w\<lparr>zone_store := Some state\<rparr>"

definition addToInsideZones :: "string \<Rightarrow> string \<Rightarrow> world \<Rightarrow> world" where
  "addToInsideZones now zoneId w =
    (let state = getZoneState now w in
     if zoneId \<notin> set (insideZones state)
     then setZoneState (state\<lparr>insideZones := insideZones state @ [zoneId], lastUpdated := now\<rparr>) w
     else w)"

text \<open>\<^verbatim>\<open>indexOf\<close> and \<^verbatim>\<open>splice(index, 1)\<close> remove the first occurrence.\<close>

definition removeFromInsideZones :: "string \<Rightarrow> string \<Rightarrow> world \<Rightarrow> world" where
  "removeFromInsideZones now zoneId w =
    (let state = getZoneState now w in
     if zoneId \<in> set (insideZones state)
     then setZoneState (state\<lparr>insideZones := remove1 zoneId (insideZones state), lastUpdated := now\<rparr>) w
     else w)"

definition isInsideZone :: "string \<Rightarrow> string \<Rightarrow> world \<Rightarrow> bool" where
  "isInsideZone now zoneId w = (zoneId \<in> set (insideZones (getZoneState now w)))"

definition clearZoneState :: "world \<Rightarrow> world" where
  "clearZoneState w = w\<lparr>zone_store := None\<rparr>"

section \<open>Numbers\<close>

text \<open>
  A JavaScript number is NaN, an infinity, or a finite double, which is a real number.
  The two zeros are one value here: in \<^verbatim>\<open>calculateDistance\<close> a negative zero can occur
  only where its sign does not matter (on the way to a square or a cosine, or as the
  second summand of \<^verbatim>\<open>a\<close>). Every comparison with NaN is false.
\<close>

datatype number = NaN | NegInf | Num real | PosInf

text \<open>\<^verbatim>\<open>x <= y\<close>\<close>

fun jsLe :: "number \<Rightarrow> number \<Rightarrow> bool" where
  "jsLe NaN y = False"
| "jsLe x NaN = False"
| "jsLe NegInf y = True"
| "jsLe x PosInf = True"
| "jsLe (Num x) (Num y) = (x \<le> y)"
| "jsLe x y = False"

text \<open>
  The arithmetic of the engine: the operators \<^verbatim>\<open>+ - * / **\<close> and the members of
  \<^verbatim>\<open>Math\<close> that \<^verbatim>\<open>calculateDistance\<close> uses. How they round, and where they give
  NaN, is left open: every function that calculates takes the arithmetic as its first
  parameter \<open>fp\<close>, and what is proved of it holds for every arithmetic.
\<close>

record Arithmetic =
  op_add :: "number \<Rightarrow> number \<Rightarrow> number"
  op_sub :: "number \<Rightarrow> number \<Rightarrow> number"
  op_mul :: "number \<Rightarrow> number \<Rightarrow> number"
  op_div :: "number \<Rightarrow> number \<Rightarrow> number"
  op_pow :: "number \<Rightarrow> number \<Rightarrow> number"
  Math_sin :: "number \<Rightarrow> number"
  Math_cos :: "number \<Rightarrow> number"
  Math_sqrt :: "number \<Rightarrow> number"
  Math_atan2 :: "number \<Rightarrow> number \<Rightarrow> number"
  Math_PI :: number

section \<open>Distance\<close>

text \<open>\<^verbatim>\<open>const toRad = (d: number) => (d * Math.PI) / 180\<close>\<close>

definition toRad :: "Arithmetic \<Rightarrow> number \<Rightarrow> number" where
  "toRad fp d = op_div fp (op_mul fp d (Math_PI fp)) (Num 180)"

definition calculateDistance ::
  "Arithmetic \<Rightarrow> number \<Rightarrow> number \<Rightarrow> number \<Rightarrow> number \<Rightarrow> number" where
  "calculateDistance fp lat1 lon1 lat2 lon2 =
    (let R = Num 6371000;
         phi1 = toRad fp lat1;
         phi2 = toRad fp lat2;
         dphi = toRad fp (op_sub fp lat2 lat1);
         dlambda = toRad fp (op_sub fp lon2 lon1);
         a = op_add fp
               (op_pow fp (Math_sin fp (op_div fp dphi (Num 2))) (Num 2))
               (op_mul fp
                  (op_mul fp (Math_cos fp phi1) (Math_cos fp phi2))
                  (op_pow fp (Math_sin fp (op_div fp dlambda (Num 2))) (Num 2)))
     in op_mul fp (op_mul fp R (Num 2))
          (Math_atan2 fp (Math_sqrt fp a) (Math_sqrt fp (op_sub fp (Num 1) a))))"

section \<open>Point-based reconciliation\<close>

text \<open>The four object literals built in the loop bodies of \<^verbatim>\<open>checkInitialPosition\<close> and
  \<^verbatim>\<open>handleLocationUpdate\<close>; the two functions differ in the \<^verbatim>\<open>source\<close> tag only.\<close>

definition enterNotification :: "string \<Rightarrow> string \<Rightarrow> DisasterGeofence \<Rightarrow> Notification" where
  "enterNotification source now geofence =
    (let alertContent = getDisasterAlertContent (type geofence) (severity geofence) True in
     \<lparr>n_title = enterPrefix @ title alertContent,
      n_body = body alertContent,
      n_sound = sound alertContent,
      n_priority = priority alertContent,
      n_type = type geofence,
      n_severity = severity geofence,
      n_action = actionText alertContent,
      n_zoneName = description geofence,
      n_event = ENTER,
      n_geofenceId = identifier geofence,
      n_timestamp = now,
      n_source = source\<rparr>)"

definition exitNotification :: "string \<Rightarrow> string \<Rightarrow> DisasterGeofence \<Rightarrow> Notification" where
  "exitNotification source now geofence =
    (let alertContent = getDisasterAlertContent (type geofence) (severity geofence) False in
     \<lparr>n_title = exitPrefix @ title alertContent,
      n_body = ''You have left '' @ description geofence @ ''. '' @ body alertContent,
      n_sound = sound alertContent,
      n_priority = priority alertContent,
      n_type = type geofence,
      n_severity = severity geofence,
      n_action = actionText alertContent,
      n_zoneName = description geofence,
      n_event = EXIT,
      n_geofenceId = identifier geofence,
      n_timestamp = now,
      n_source = source\<rparr>)"

definition locationEvent ::
  "EventType \<Rightarrow> string \<Rightarrow> LocationObject \<Rightarrow> DisasterGeofence \<Rightarrow> GeofenceEvent" where
  "locationEvent ev now location geofence =
    \<lparr>e_type = ev,
     e_timestamp = now,
     e_region = None,
     e_location = Some (loc_latitude location, loc_longitude location),
     e_disasterType = Some (type geofence),
     e_severity = Some (severity geofence),
     e_zoneName = Some (description geofence)\<rparr>"

text \<open>\<^verbatim>\<open>const isInside = distance <= geofence.radius\<close>, with the distance of the line before.\<close>

definition isInside :: "Arithmetic \<Rightarrow> LocationObject \<Rightarrow> DisasterGeofence \<Rightarrow> bool" where
  "isInside fp location geofence =
    (let distance = calculateDistance fp
                      (Num (loc_latitude location)) (Num (loc_longitude location))
                      (Num (latitude geofence)) (Num (longitude geofence))
     in jsLe distance (Num (radius geofence)))"

text \<open>
  One iteration of \<^verbatim>\<open>for (const geofence of TEST_GEOFENCES)\<close>: \<open>prev\<close> is
  \<^verbatim>\<open>currentState.insideZones\<close>, read before the loop; the pair carries the list that
  collects the zones the point is inside and the state.
\<close>

definition zoneStep ::
  "Arithmetic \<Rightarrow> string \<Rightarrow> string \<Rightarrow> LocationObject \<Rightarrow> string list \<Rightarrow> DisasterGeofence
     \<Rightarrow> string list \<times> world \<Rightarrow> string list \<times> world" where
  "zoneStep fp source now location prev geofence st =
    (case st of (inside, w) \<Rightarrow>
      if isInside fp location geofence then
        (if identifier geofence \<notin> set prev
         then (inside @ [identifier geofence],
               logEvent (locationEvent ENTER now location geofence)
                 (sendAlertNotification (enterNotification source now geofence) w))
         else (inside @ [identifier geofence], w))
      else
        (if identifier geofence \<in> set prev
         then (inside,
               logEvent (locationEvent EXIT now location geofence)
                 (sendAlertNotification (exitNotification source now geofence) w))
         else (inside, w)))"

fun zoneLoop ::
  "Arithmetic \<Rightarrow> string \<Rightarrow> string \<Rightarrow> LocationObject \<Rightarrow> string list \<Rightarrow> DisasterGeofence list
     \<Rightarrow> string list \<times> world \<Rightarrow> string list \<times> world" where
  "zoneLoop fp source now location prev [] st = st"
| "zoneLoop fp source now location prev (geofence # rest) st =
     zoneLoop fp source now location prev rest (zoneStep fp source now location prev geofence st)"

text \<open>\<open>pos\<close> is what \<^verbatim>\<open>Location.getCurrentPositionAsync\<close> gives; \<open>None\<close>: it throws, and the
  \<^verbatim>\<open>catch\<close> of the whole body reports it.\<close>

definition checkInitialPosition ::
  "Arithmetic \<Rightarrow> DisasterGeofence list \<Rightarrow> string \<Rightarrow> LocationObject option \<Rightarrow> world \<Rightarrow> world" where
  "checkInitialPosition fp zones now pos w =
    (case pos of
       None \<Rightarrow> consoleError (errorPrefix @ ''Error checking initial position:'') w
     | Some location \<Rightarrow>
        (let currentState = getZoneState now w in
         case zoneLoop fp ''initial_check'' now location (insideZones currentState) zones ([], w) of
           (currentlyInside, w') \<Rightarrow>
             setZoneState \<lparr>insideZones = currentlyInside, lastUpdated = now\<rparr> w'))"

text \<open>\<^verbatim>\<open>sort()\<close> sorts \<^verbatim>\<open>newInsideZones\<close> in place, so the sorted list is the one saved;
  \<^verbatim>\<open>JSON.stringify\<close> is injective on string arrays.\<close>

definition handleLocationUpdate ::
  "Arithmetic \<Rightarrow> DisasterGeofence list \<Rightarrow> string \<Rightarrow> LocationObject \<Rightarrow> world \<Rightarrow> world" where
  "handleLocationUpdate fp zones now location w =
    (let currentState = getZoneState now w in
     case zoneLoop fp ''foreground_watch'' now location (insideZones currentState) zones ([], w) of
       (newInsideZones, w') \<Rightarrow>
         if sort newInsideZones \<noteq> sort (insideZones currentState)
         then setZoneState \<lparr>insideZones = sort newInsideZones, lastUpdated = now\<rparr> w'
         else w')"

section \<open>Signal-based reconciliation: the background task\<close>

definition taskNotification :: "string \<Rightarrow> bool \<Rightarrow> DisasterGeofence \<Rightarrow> Notification" where
  "taskNotification now isEntering geofence =
    (let alertContent = getDisasterAlertContent (type geofence) (severity geofence) isEntering in
     \<lparr>n_title = (if isEntering then enterPrefix @ title alertContent
                 else exitPrefix @ title alertContent),
      n_body = (if isEntering then body alertContent
                else ''You have left '' @ description geofence @ ''. '' @ body alertContent),
      n_sound = sound alertContent,
      n_priority = (if isEntering then priority alertContent else P_DEFAULT),
      n_type = type geofence,
      n_severity = severity geofence,
      n_action = actionText alertContent,
      n_zoneName = description geofence,
      n_event = (if isEntering then ENTER else EXIT),
      n_geofenceId = identifier geofence,
      n_timestamp = now,
      n_source = ''background_geofence''\<rparr>)"

definition regionEvent ::
  "bool \<Rightarrow> string \<Rightarrow> LocationRegion \<Rightarrow> DisasterGeofence \<Rightarrow> GeofenceEvent" where
  "regionEvent isEntering now reg geofence =
    \<lparr>e_type = (if isEntering then ENTER else EXIT),
     e_timestamp = now,
     e_region = Some reg,
     e_location = None,
     e_disasterType = Some (type geofence),
     e_severity = Some (severity geofence),
     e_zoneName = Some (description geofence)\<rparr>"

definition errorEvent :: "string \<Rightarrow> string \<Rightarrow> GeofenceEvent" where
  "errorEvent now message =
    \<lparr>e_type = ENTER,
     e_timestamp = now,
     e_region = None,
     e_location = None,
     e_disasterType = None,
     e_severity = None,
     e_zoneName = Some (''ERROR: '' @ message)\<rparr>"

text \<open>
  The handler given to \<^verbatim>\<open>TaskManager.defineTask(GEOFENCE_TASK, ...)\<close>. \<open>error\<close> is the
  message of the task error, if there is one; \<open>data\<close> is the task's data, if there is any.
  An identifier that is absent or the empty string is falsy.
\<close>

definition geofenceTask ::
  "DisasterGeofence list \<Rightarrow> string \<Rightarrow> GeofenceTaskData option \<Rightarrow> string option \<Rightarrow> world \<Rightarrow> world" where
  "geofenceTask zones now data error w =
    (case error of
       Some message \<Rightarrow> logEvent (errorEvent now message) (consoleError ''Geofence task error:'' w)
     | None \<Rightarrow>
        (case (case data of Some d \<Rightarrow> eventType d | None \<Rightarrow> None,
               case data of Some d \<Rightarrow> region d | None \<Rightarrow> None) of
           (Some et, Some reg) \<Rightarrow>
             (case r_identifier reg of
                None \<Rightarrow> consoleWarn (enterPrefix @ ''Geofence region had no identifier'') w
              | Some ident \<Rightarrow>
                 if ident = []
                 then consoleWarn (enterPrefix @ ''Geofence region had no identifier'') w
                 else
                   (case getGeofenceDetails zones ident of
                      None \<Rightarrow> consoleWarn ''Unknown geofence identifier:'' w
                    | Some geofence \<Rightarrow>
                       (let isEntering = (et = Enter);
                            w1 = (if isEntering then addToInsideZones now ident w
                                  else removeFromInsideZones now ident w);
                            w2 = sendAlertNotification (taskNotification now isEntering geofence) w1
                        in logEvent (regionEvent isEntering now reg geofence) w2)))
         | _ \<Rightarrow> consoleWarn ''Missing event type or region'' w))"

section \<open>Monitoring session\<close>

definition stopLocationWatching :: "world \<Rightarrow> world" where
  "stopLocationWatching w =
    (if locationSubscription w then w\<lparr>locationSubscription := False\<rparr> else w)"

definition startLocationWatching :: "world \<Rightarrow> world" where
  "startLocationWatching w = (stopLocationWatching w)\<lparr>locationSubscription := True\<rparr>"

text \<open>\<^verbatim>\<open>Location.stopGeofencingAsync(GEOFENCE_TASK)\<close> and
  \<^verbatim>\<open>Location.startGeofencingAsync(GEOFENCE_TASK, regions)\<close>, taken not to throw.\<close>

definition stopGeofencingAsync :: "world \<Rightarrow> world" where
  "stopGeofencingAsync w = w\<lparr>task_registered := False, registered_regions := []\<rparr>"

definition startGeofencingAsync :: "LocationRegion list \<Rightarrow> world \<Rightarrow> world" where
  "startGeofencingAsync regions w = w\<lparr>task_registered := True, registered_regions := regions\<rparr>"

definition stopGeofencing :: "world \<Rightarrow> world" where
  "stopGeofencing w =
    (let w1 = stopLocationWatching w;
         registered = task_registered w1
     in if \<not> registered then w1
        else clearZoneState (stopGeofencingAsync w1))"

definition isGeofencingActive :: "world \<Rightarrow> bool" where
  "isGeofencingActive w = task_registered w"

datatype PermissionStatus = granted | denied | undetermined

text \<open>What the platform answers during one \<^verbatim>\<open>startGeofencing\<close>: the three permission
  requests and the two position queries (\<open>None\<close>: the query throws).\<close>

record StartAnswers =
  fg :: PermissionStatus
  bg :: PermissionStatus
  notif :: PermissionStatus
  debugPosition :: "LocationObject option"
  initialPosition :: "LocationObject option"

definition toRegion :: "DisasterGeofence \<Rightarrow> LocationRegion" where
  "toRegion g =
    \<lparr>r_identifier = Some (identifier g),
     r_latitude = latitude g,
     r_longitude = longitude g,
     r_radius = radius g,
     r_notifyOnEnter = notifyOnEnter g,
     r_notifyOnExit = notifyOnExit g\<rparr>"

text \<open>The result is the message of the error \<^verbatim>\<open>startGeofencing\<close> rejects with, if it does,
  and the state it leaves.\<close>

definition startFailed :: "string \<Rightarrow> world \<Rightarrow> string option \<times> world" where
  "startFailed message w = (Some message, consoleError ''ERROR STARTING GEOFENCING:'' w)"

definition startGeofencing ::
  "Arithmetic \<Rightarrow> DisasterGeofence list \<Rightarrow> string \<Rightarrow> StartAnswers \<Rightarrow> world
     \<Rightarrow> string option \<times> world" where
  "startGeofencing fp zones now answers w =
    (if fg answers \<noteq> granted then startFailed ''Foreground location permission denied'' w
     else if bg answers \<noteq> granted then
       startFailed (''Background location permission denied. Enable '' @ [CHR 0x22]
         @ ''Always Allow'' @ [CHR 0x22] @ '' in device settings.'') w
     else if notif answers \<noteq> granted then startFailed ''Notification permission denied'' w
     else
       (let alreadyRunning = task_registered w;
            w1 = (if alreadyRunning then stopGeofencingAsync w else w);
            regions = map toRegion zones;
            w2 = startGeofencingAsync regions w1;
            w3 = (case debugPosition answers of
                    Some location \<Rightarrow> w2
                  | None \<Rightarrow> consoleWarn (enterPrefix @ ''Could not get current location:'') w2);
            w4 = checkInitialPosition fp zones now (initialPosition answers) w3
        in (None, startLocationWatching w4)))"

section \<open>Terms of the specification\<close>

text \<open>The occupancy set that is persisted.\<close>

definition occupancy :: "world \<Rightarrow> string set" where
  "occupancy w = (case zone_store w of Some state \<Rightarrow> set (insideZones state) | None \<Rightarrow> {})"

text \<open>Step 1 of the point-based form: the identifiers of the catalog zones that contain
  the point, in catalog order.\<close>

definition currentlyInside ::
  "Arithmetic \<Rightarrow> DisasterGeofence list \<Rightarrow> LocationObject \<Rightarrow> string list" where
  "currentlyInside fp zones location = map identifier (filter (isInside fp location) zones)"

text \<open>Step 2: \<open>entered = currentlyInside - previouslyInside\<close> and
  \<open>exited = previouslyInside - currentlyInside\<close>.\<close>

definition entered :: "string list \<Rightarrow> string list \<Rightarrow> string list" where
  "entered cur prev = filter (\<lambda>i. i \<notin> set prev) cur"

definition exited :: "string list \<Rightarrow> string list \<Rightarrow> string list" where
  "exited cur prev = filter (\<lambda>i. i \<notin> set cur) prev"

text \<open>The notifications dispatched between two states, and the identifiers of those of
  one direction.\<close>

definition dispatched :: "world \<Rightarrow> world \<Rightarrow> Notification list" where
  "dispatched w w' = drop (length (sent w)) (sent w')"

definition notified :: "EventType \<Rightarrow> Notification list \<Rightarrow> string list" where
  "notified ev ns = map n_geofenceId (filter (\<lambda>n. n_event n = ev) ns)"

text \<open>Appending a sequence of events to the log, oldest first.\<close>

definition pushAll :: "GeofenceEvent list \<Rightarrow> GeofenceEvent list \<Rightarrow> GeofenceEvent list" where
  "pushAll events logs = foldl (\<lambda>l e. pushLog e l) logs events"

definition logAll :: "GeofenceEvent list \<Rightarrow> world \<Rightarrow> world" where
  "logAll events w = foldl (\<lambda>v e. logEvent e v) w events"

text \<open>
  What the diff of steps 3 and 4 calls for, for one catalog zone and for the catalog: a
  notification and a log entry for a zone that is entered, and for a zone that is exited.
\<close>

definition zoneOutput ::
  "Arithmetic \<Rightarrow> string \<Rightarrow> string \<Rightarrow> LocationObject \<Rightarrow> string list \<Rightarrow> DisasterGeofence
     \<Rightarrow> (Notification \<times> GeofenceEvent) list" where
  "zoneOutput fp source now location prev g =
    (if isInside fp location g \<and> identifier g \<notin> set prev
     then [(enterNotification source now g, locationEvent ENTER now location g)]
     else if \<not> isInside fp location g \<and> identifier g \<in> set prev
     then [(exitNotification source now g, locationEvent EXIT now location g)]
     else [])"

definition diffOutput ::
  "Arithmetic \<Rightarrow> string \<Rightarrow> string \<Rightarrow> LocationObject \<Rightarrow> string list \<Rightarrow> DisasterGeofence list
     \<Rightarrow> (Notification \<times> GeofenceEvent) list" where
  "diffOutput fp source now location prev zones =
    concat (map (zoneOutput fp source now location prev) zones)"

text \<open>Modelled from the spec: the order \<open>INFO < WARNING < HIGH < CRITICAL\<close> of the
  severities (the source declares them as an unordered union of string literals).\<close>

fun severityRank :: "SeverityLevel \<Rightarrow> nat" where
  "severityRank INFO = 0"
| "severityRank WARNING = 1"
| "severityRank HIGH = 2"
| "severityRank CRITICAL = 3"

text \<open>The order of the delivery priorities of expo-notifications, from \<open>MIN\<close> to \<open>MAX\<close>.\<close>

fun priorityRank :: "AndroidNotificationPriority \<Rightarrow> nat" where
  "priorityRank P_MIN = 0"
| "priorityRank P_LOW = 1"
| "priorityRank P_DEFAULT = 2"
| "priorityRank P_HIGH = 3"
| "priorityRank P_MAX = 4"

text \<open>The ways the positioning collaborator fails to supply the region of a transition: a
  task error, or data without an event type, a region or a region identifier.\<close>

definition signalMissing :: "GeofenceTaskData option \<Rightarrow> string option \<Rightarrow> bool" where
  "signalMissing data error =
    (error \<noteq> None \<or>
     (case data of
        None \<Rightarrow> True
      | Some d \<Rightarrow>
         eventType d = None \<or>
         (case region d of
            None \<Rightarrow> True
          | Some reg \<Rightarrow> r_identifier reg = None \<or> r_identifier reg = Some [])))"

text \<open>The zone a signal names, if it names one.\<close>

definition signalZone :: "GeofenceTaskData option \<Rightarrow> string option" where
  "signalZone data =
    (case data of
       None \<Rightarrow> None
     | Some d \<Rightarrow> (case region d of None \<Rightarrow> None | Some reg \<Rightarrow> r_identifier reg))"

text \<open>Performing the notifications and log entries of a list of pairs, in order.\<close>

definition applyOutput :: "(Notification \<times> GeofenceEvent) list \<Rightarrow> world \<Rightarrow> world" where
  "applyOutput out w = foldl (\<lambda>v (n, e). logEvent e (sendAlertNotification n v)) w out"

section \<open>Example data\<close>

text \<open>The state of a fresh installation: nothing stored, nothing registered.\<close>

definition freshWorld :: world where
  "freshWorld =
    \<lparr>zone_store = None, logs_store = None, sent = [], console = [],
     task_registered = False, registered_regions = [], locationSubscription = False\<rparr>"

text \<open>A catalog of three zones on the equator, a quarter of the circumference apart, and
  the two observer positions at the centres of the first and of the last.\<close>

definition zoneA :: DisasterGeofence where
  "zoneA =
    \<lparr>identifier = ''A'', type = FLOOD, severity = HIGH,
     latitude = 0, longitude = 0, radius = 1000,
     notifyOnEnter = True, notifyOnExit = False, description = ''Zone A''\<rparr>"

definition zoneB :: DisasterGeofence where
  "zoneB =
    \<lparr>identifier = ''B'', type = FIRE, severity = WARNING,
     latitude = 0, longitude = 90, radius = 13000000,
     notifyOnEnter = True, notifyOnExit = True, description = ''Zone B''\<rparr>"

definition zoneC :: DisasterGeofence where
  "zoneC =
    \<lparr>identifier = ''C'', type = STORM, severity = CRITICAL,
     latitude = 0, longitude = 180, radius = 1000,
     notifyOnEnter = False, notifyOnExit = True, description = ''Zone C''\<rparr>"

definition exampleZones :: "DisasterGeofence list" where
  "exampleZones = [zoneA, zoneB, zoneC]"

definition pointA :: LocationObject where
  "pointA = \<lparr>loc_latitude = 0, loc_longitude = 0\<rparr>"

definition pointC :: LocationObject where
  "pointC = \<lparr>loc_latitude = 0, loc_longitude = 180\<rparr>"

text \<open>Stored occupancy: inside the first two example zones; inside a zone that is no
  longer in the catalog; inside the first zone of \<^verbatim>\<open>TEST_GEOFENCES\<close>, with the foreground
  watch running and the background task not registered.\<close>

definition worldAB :: world where
  "worldAB = freshWorld\<lparr>zone_store := Some \<lparr>insideZones = [''A'', ''B''], lastUpdated = ''t0''\<rparr>\<rparr>"

definition staleWorld :: world where
  "staleWorld = freshWorld\<lparr>zone_store := Some \<lparr>insideZones = [''removed-zone''], lastUpdated = ''t0''\<rparr>\<rparr>"

definition leftoverWorld :: world where
  "leftoverWorld =
    freshWorld\<lparr>zone_store := Some \<lparr>insideZones = [''flood-derby-center''],
                   lastUpdated = ''2024-01-01T00:00:00.000Z''\<rparr>,
               locationSubscription := True\<rparr>"

text \<open>The centre of the first zone of \<^verbatim>\<open>TEST_GEOFENCES\<close>, and a start where every
  permission is granted and both position queries give the same position.\<close>

definition derbyCentre :: LocationObject where
  "derbyCentre = \<lparr>loc_latitude = 52.9225, loc_longitude = -1.4746\<rparr>"

definition allGranted :: "LocationObject \<Rightarrow> StartAnswers" where
  "allGranted location =
    \<lparr>fg = granted, bg = granted, notif = granted,
     debugPosition = Some location, initialPosition = Some location\<rparr>"

section \<open>Exact arithmetic and the haversine formula\<close>

text \<open>
  An arithmetic that does not round: the operations of the real numbers on the finite
  numbers, NaN for the square root of a negative number and where an operand is not
  finite. It is the arithmetic of the examples; the engine's rounds.
\<close>

definition atan2 :: "real \<Rightarrow> real \<Rightarrow> real" where
  "atan2 y x =
    (if 0 < x then arctan (y / x)
     else if x < 0 then (if 0 \<le> y then arctan (y / x) + pi else arctan (y / x) - pi)
     else if 0 < y then pi / 2
     else if y < 0 then - (pi / 2)
     else 0)"

fun lift1 :: "(real \<Rightarrow> real) \<Rightarrow> number \<Rightarrow> number" where
  "lift1 f (Num x) = Num (f x)"
| "lift1 f x = NaN"

fun lift2 :: "(real \<Rightarrow> real \<Rightarrow> real) \<Rightarrow> number \<Rightarrow> number \<Rightarrow> number" where
  "lift2 f (Num x) (Num y) = Num (f x y)"
| "lift2 f x y = NaN"

fun exactSqrt :: "number \<Rightarrow> number" where
  "exactSqrt (Num x) = (if x < 0 then NaN else Num (sqrt x))"
| "exactSqrt x = NaN"

definition exactMath :: Arithmetic where
  "exactMath =
    \<lparr>op_add = lift2 (\<lambda>x y. x + y),
     op_sub = lift2 (\<lambda>x y. x - y),
     op_mul = lift2 (\<lambda>x y. x * y),
     op_div = lift2 (\<lambda>x y. x / y),
     op_pow = lift2 (\<lambda>x y. if y = 2 then x * x else x powr y),
     Math_sin = lift1 sin,
     Math_cos = lift1 cos,
     Math_sqrt = exactSqrt,
     Math_atan2 = lift2 atan2,
     Math_PI = Num pi\<rparr>"

text \<open>The expression of \<^verbatim>\<open>calculateDistance\<close> on the real numbers.\<close>

definition exactRad :: "real \<Rightarrow> real" where
  "exactRad d = (d * pi) / 180"

definition exactDistance :: "real \<Rightarrow> real \<Rightarrow> real \<Rightarrow> real \<Rightarrow> real" where
  "exactDistance lat1 lon1 lat2 lon2 =
    (let R = 6371000;
         phi1 = exactRad lat1;
         phi2 = exactRad lat2;
         dphi = exactRad (lat2 - lat1);
         dlambda = exactRad (lon2 - lon1);
         a = (sin (dphi / 2))\<^sup>2 + cos phi1 * cos phi2 * (sin (dlambda / 2))\<^sup>2
     in R * 2 * atan2 (sqrt a) (sqrt (1 - a)))"

text \<open>
  Modelled from the spec: the great-circle distance between two latitude/longitude pairs
  by the haversine formula, on a sphere of radius 6,371,000 m. It is compared below with
  what \<open>calculateDistance\<close>, which is the source's, gives in exact arithmetic.
\<close>

definition hav :: "real \<Rightarrow> real \<Rightarrow> real \<Rightarrow> real \<Rightarrow> real" where
  "hav lat1 lon1 lat2 lon2 =
    (sin ((exactRad lat2 - exactRad lat1) / 2))\<^sup>2
      + cos (exactRad lat1) * cos (exactRad lat2) * (sin ((exactRad lon2 - exactRad lon1) / 2))\<^sup>2"


section \<open>The event log\<close>

lemma pushLog_take: "length logs \<le> 50 \<Longrightarrow> pushLog e logs = take 50 (e # logs)"
proof (cases "length logs = 50")
  case True
  then show ?thesis by (simp add: pushLog_def Let_def butlast_conv_take)
next
  case False
  assume "length logs \<le> 50"
  with False show ?thesis by (simp add: pushLog_def Let_def)
qed

lemma length_pushLog: "length logs \<le> 50 \<Longrightarrow> length (pushLog e logs) \<le> 50"
  by (simp add: pushLog_take)

lemma pushAll_snoc: "pushAll (es @ [e]) logs = pushLog e (pushAll es logs)"
  by (simp add: pushAll_def)

lemma take_Cons_take: "take 50 (e # take 50 xs) = take 50 (e # xs)"
  by (simp add: take_Cons')

lemma pushAll_take: "length logs \<le> 50 \<Longrightarrow> pushAll es logs = take 50 (rev es @ logs)"
proof (induction es rule: rev_induct)
  case Nil
  then show ?case by (simp add: pushAll_def)
next
  case (snoc e es)
  then have eq: "pushAll es logs = take 50 (rev es @ logs)" by simp
  have "pushAll (es @ [e]) logs = pushLog e (take 50 (rev es @ logs))"
    by (simp only: pushAll_snoc eq)
  also have "\<dots> = take 50 (e # take 50 (rev es @ logs))"
    by (rule pushLog_take) simp
  also have "\<dots> = take 50 (e # (rev es @ logs))"
    by (rule take_Cons_take)
  finally show ?case by simp
qed

lemma getLogs_logEvent: "getLogs (logEvent e w) = pushLog e (getLogs w)"
  by (simp add: getLogs_def logEvent_def)

lemma getLogs_logAll: "getLogs (logAll es w) = pushAll es (getLogs w)"
  by (induction es arbitrary: w) (simp_all add: logAll_def pushAll_def getLogs_logEvent)


text \<open>
  C5: the log is bounded and most-recent-first. Appending any sequence of events to an
  absent log leaves the last 50 of them, the newest first; on a log of at most 50 entries
  an append puts the new event at the front and keeps at most 50; on a log of exactly 50
  entries it drops the last, that is the oldest, entry.
\<close>

theorem logEvent_bounded_recent_first:
  "getLogs (logAll es (w\<lparr>logs_store := None\<rparr>)) = take 50 (rev es)
   \<and> length (getLogs (logAll es (w\<lparr>logs_store := None\<rparr>))) \<le> 50
   \<and> (length (getLogs w) \<le> 50 \<longrightarrow>
        getLogs (logEvent e w) = take 50 (e # getLogs w)
        \<and> length (getLogs (logEvent e w)) \<le> 50)
   \<and> (length (getLogs w) = 50 \<longrightarrow> getLogs (logEvent e w) = e # butlast (getLogs w))"
proof -
  have fresh: "getLogs (w\<lparr>logs_store := None\<rparr>) = []"
    by (simp add: getLogs_def)
  have a: "getLogs (logAll es (w\<lparr>logs_store := None\<rparr>)) = take 50 (rev es)"
    by (simp add: getLogs_logAll fresh pushAll_take)
  have b: "length (getLogs w) \<le> 50 \<Longrightarrow> getLogs (logEvent e w) = take 50 (e # getLogs w)"
    by (simp add: getLogs_logEvent pushLog_take)
  have c: "length (getLogs w) = 50 \<Longrightarrow> getLogs (logEvent e w) = e # butlast (getLogs w)"
    by (auto simp: getLogs_logEvent pushLog_def Let_def)
  from a b c show ?thesis by simp
qed

theorem logEvent_bounded_witness:
  "length (getLogs (logAll (replicate 50 (errorEvent ''t0'' ''old'')) freshWorld)) = 50
   \<and> getLogs (logEvent (errorEvent ''t1'' ''new'')
        (logAll (replicate 50 (errorEvent ''t0'' ''old'')) freshWorld))
      = errorEvent ''t1'' ''new'' # replicate 49 (errorEvent ''t0'' ''old'')"
proof -
  let ?old = "errorEvent ''t0'' ''old''"
  let ?w = "logAll (replicate 50 ?old) freshWorld"
  have fresh: "freshWorld\<lparr>logs_store := None\<rparr> = freshWorld"
    by (simp add: freshWorld_def)
  have full: "getLogs ?w = replicate 50 ?old"
    using logEvent_bounded_recent_first [of "replicate 50 ?old" freshWorld]
    by (simp add: fresh)
  have len: "length (getLogs ?w) = 50"
    by (simp add: full)
  have "getLogs (logEvent (errorEvent ''t1'' ''new'') ?w)
          = errorEvent ''t1'' ''new'' # butlast (getLogs ?w)"
    using logEvent_bounded_recent_first [of _ ?w "errorEvent ''t1'' ''new''"] len
    by blast
  then show ?thesis
    by (simp add: full butlast_conv_take)
qed


section \<open>The notification composer\<close>

lemma alerts_title_inj: "title (alerts t s) = title (alerts t' s') \<Longrightarrow> t = t' \<and> s = s'"
  by (cases t; cases s; cases t'; cases s'; simp)

lemma alerts_nonempty: "title (alerts t s) \<noteq> [] \<and> body (alerts t s) \<noteq> [] \<and> actionText (alerts t s) \<noteq> []"
  by (cases t; cases s; simp)

lemma alerts_priority: "priority (alerts t s) = (case s of INFO \<Rightarrow> P_DEFAULT | WARNING \<Rightarrow> P_HIGH | HIGH \<Rightarrow> P_MAX | CRITICAL \<Rightarrow> P_MAX)"
  by (cases t; cases s; simp)

lemma UNIV_DisasterType: "(UNIV :: DisasterType set) = {FLOOD, FIRE, EVACUATION, STORM, EARTHQUAKE}"
  by (auto intro: DisasterType.exhaust)

lemma UNIV_SeverityLevel: "(UNIV :: SeverityLevel set) = {INFO, WARNING, HIGH, CRITICAL}"
  by (auto intro: SeverityLevel.exhaust)

lemma card_pairs: "card (UNIV :: (DisasterType \<times> SeverityLevel) set) = 20"
proof -
  have "(UNIV :: (DisasterType \<times> SeverityLevel) set) = UNIV \<times> UNIV" by simp
  also have "card \<dots> = card (UNIV :: DisasterType set) * card (UNIV :: SeverityLevel set)"
    by (rule card_cartesian_product)
  also have "\<dots> = 20" by (simp add: UNIV_DisasterType UNIV_SeverityLevel)
  finally show ?thesis .
qed

text \<open>
  C6: the composer is a total function on the 5 categories and 4 severities. On entry two
  pairs give the same template only if they are the same pair, so there are 20 templates,
  each with a non-empty title, body and action text; on exit every pair gives the one
  shared template, at default priority.
\<close>

theorem getDisasterAlertContent_total:
  "(getDisasterAlertContent t s True = getDisasterAlertContent t' s' True \<longleftrightarrow> t = t' \<and> s = s')
   \<and> card (range (\<lambda>(t, s). getDisasterAlertContent t s True)) = 20
   \<and> title (getDisasterAlertContent t s True) \<noteq> []
   \<and> body (getDisasterAlertContent t s True) \<noteq> []
   \<and> actionText (getDisasterAlertContent t s True) \<noteq> []
   \<and> getDisasterAlertContent t s False = exitAlert
   \<and> getDisasterAlertContent t s False = getDisasterAlertContent t' s' False
   \<and> priority (getDisasterAlertContent t s False) = P_DEFAULT
   \<and> title (getDisasterAlertContent t s False) \<noteq> []
   \<and> body (getDisasterAlertContent t s False) \<noteq> []"
proof -
  have inj: "inj (\<lambda>(t, s). getDisasterAlertContent t s True)"
    by (auto simp: inj_on_def getDisasterAlertContent_def dest: alerts_title_inj arg_cong [where f = title])
  have card: "card (range (\<lambda>(t, s). getDisasterAlertContent t s True)) = 20"
    using card_image [OF inj] card_pairs by simp
  have eq: "getDisasterAlertContent t s True = getDisasterAlertContent t' s' True \<longleftrightarrow> t = t' \<and> s = s'"
    using inj by (auto simp: inj_on_def)
  show ?thesis
    using eq card alerts_nonempty [of t s]
    by (simp add: getDisasterAlertContent_def exitAlert_def)
qed


text \<open>
  C7: for every category the delivery priority of the entry alert does not decrease as
  the severity increases (DEFAULT, HIGH, MAX, MAX), and the CRITICAL template carries MAX,
  the greatest priority there is.
\<close>

theorem entry_priority_monotone:
  "(severityRank s \<le> severityRank s' \<longrightarrow>
      priorityRank (priority (getDisasterAlertContent t s True))
        \<le> priorityRank (priority (getDisasterAlertContent t s' True)))
   \<and> priority (getDisasterAlertContent t INFO True) = P_DEFAULT
   \<and> priority (getDisasterAlertContent t WARNING True) = P_HIGH
   \<and> priority (getDisasterAlertContent t HIGH True) = P_MAX
   \<and> priority (getDisasterAlertContent t CRITICAL True) = P_MAX
   \<and> priorityRank p \<le> priorityRank P_MAX"
  by (cases s; cases s'; cases p) (simp_all add: getDisasterAlertContent_def alerts_priority)

theorem entry_priority_monotone_witness:
  "severityRank INFO \<le> severityRank WARNING
   \<and> priorityRank (priority (getDisasterAlertContent FLOOD INFO True))
       \<le> priorityRank (priority (getDisasterAlertContent FLOOD WARNING True))
   \<and> priorityRank (priority (getDisasterAlertContent FLOOD INFO True)) = 2
   \<and> priorityRank (priority (getDisasterAlertContent FLOOD WARNING True)) = 3"
  using entry_priority_monotone [of INFO WARNING FLOOD P_MAX]
  by simp

section \<open>The loop of the point-based passes\<close>

lemma applyOutput_Nil: "applyOutput [] w = w"
  by (simp add: applyOutput_def)

lemma applyOutput_append: "applyOutput (xs @ ys) w = applyOutput ys (applyOutput xs w)"
  by (simp add: applyOutput_def)

lemma applyOutput_Cons:
  "applyOutput ((n, e) # out) w = applyOutput out (logEvent e (sendAlertNotification n w))"
  by (simp add: applyOutput_def)

lemma sent_logEvent: "sent (logEvent e w) = sent w"
  by (simp add: logEvent_def)

lemma sent_sendAlertNotification: "sent (sendAlertNotification n w) = sent w @ [n]"
  by (simp add: sendAlertNotification_def)

lemma sent_applyOutput: "sent (applyOutput out w) = sent w @ map fst out"
proof (induction out arbitrary: w)
  case Nil
  show ?case by (simp add: applyOutput_Nil)
next
  case (Cons p out)
  obtain n e where p: "p = (n, e)" by (cases p)
  show ?case
    by (simp add: p applyOutput_Cons Cons.IH sent_logEvent sent_sendAlertNotification)
qed

lemma getLogs_sendAlertNotification: "getLogs (sendAlertNotification n w) = getLogs w"
  by (simp add: getLogs_def sendAlertNotification_def)

lemma pushAll_Nil: "pushAll [] logs = logs"
  by (simp add: pushAll_def)

lemma pushAll_Cons: "pushAll (e # es) logs = pushAll es (pushLog e logs)"
  by (simp add: pushAll_def)

lemma getLogs_applyOutput: "getLogs (applyOutput out w) = pushAll (map snd out) (getLogs w)"
proof (induction out arbitrary: w)
  case Nil
  show ?case by (simp add: applyOutput_Nil pushAll_Nil)
next
  case (Cons p out)
  obtain n e where p: "p = (n, e)" by (cases p)
  show ?case
    by (simp add: p applyOutput_Cons Cons.IH pushAll_Cons getLogs_logEvent
          getLogs_sendAlertNotification)
qed

lemma zone_store_logEvent: "zone_store (logEvent e w) = zone_store w"
  by (simp add: logEvent_def)

lemma zone_store_sendAlertNotification: "zone_store (sendAlertNotification n w) = zone_store w"
  by (simp add: sendAlertNotification_def)

lemma zone_store_applyOutput: "zone_store (applyOutput out w) = zone_store w"
proof (induction out arbitrary: w)
  case Nil
  show ?case by (simp add: applyOutput_Nil)
next
  case (Cons p out)
  obtain n e where p: "p = (n, e)" by (cases p)
  show ?case
    by (simp add: p applyOutput_Cons Cons.IH zone_store_logEvent zone_store_sendAlertNotification)
qed

lemma console_logEvent: "console (logEvent e w) = console w"
  by (simp add: logEvent_def)

lemma console_sendAlertNotification: "console (sendAlertNotification n w) = console w"
  by (simp add: sendAlertNotification_def)

lemma console_applyOutput: "console (applyOutput out w) = console w"
proof (induction out arbitrary: w)
  case Nil
  show ?case by (simp add: applyOutput_Nil)
next
  case (Cons p out)
  obtain n e where p: "p = (n, e)" by (cases p)
  show ?case
    by (simp add: p applyOutput_Cons Cons.IH console_logEvent console_sendAlertNotification)
qed

lemma zoneStep_char:
  "zoneStep fp src now loc prev g (acc, w) =
    (acc @ (if isInside fp loc g then [identifier g] else []),
     applyOutput (zoneOutput fp src now loc prev g) w)"
  by (simp add: zoneStep_def zoneOutput_def applyOutput_Nil applyOutput_Cons)

lemma currentlyInside_Cons:
  "currentlyInside fp (g # zones) loc =
     (if isInside fp loc g then [identifier g] else []) @ currentlyInside fp zones loc"
  by (simp add: currentlyInside_def)

lemma diffOutput_Cons:
  "diffOutput fp src now loc prev (g # zones) =
     zoneOutput fp src now loc prev g @ diffOutput fp src now loc prev zones"
  by (simp add: diffOutput_def)

lemma zoneLoop_char:
  "zoneLoop fp src now loc prev zones (acc, w) =
    (acc @ currentlyInside fp zones loc, applyOutput (diffOutput fp src now loc prev zones) w)"
proof (induction zones arbitrary: acc w)
  case Nil
  show ?case by (simp add: currentlyInside_def diffOutput_def applyOutput_Nil)
next
  case (Cons g zones)
  show ?case
    by (simp only: zoneLoop.simps zoneStep_char Cons.IH currentlyInside_Cons diffOutput_Cons
          applyOutput_append append_assoc)
qed

lemma checkInitialPosition_Some:
  "checkInitialPosition fp zones now (Some loc) w =
    setZoneState \<lparr>insideZones = currentlyInside fp zones loc, lastUpdated = now\<rparr>
      (applyOutput (diffOutput fp ''initial_check'' now loc (insideZones (getZoneState now w)) zones) w)"
  by (simp add: checkInitialPosition_def zoneLoop_char Let_def)

lemma handleLocationUpdate_char:
  "handleLocationUpdate fp zones now loc w =
    (let w' = applyOutput (diffOutput fp ''foreground_watch'' now loc (insideZones (getZoneState now w)) zones) w
     in if sort (currentlyInside fp zones loc) \<noteq> sort (insideZones (getZoneState now w))
        then setZoneState \<lparr>insideZones = sort (currentlyInside fp zones loc), lastUpdated = now\<rparr> w'
        else w')"
  by (simp add: handleLocationUpdate_def zoneLoop_char Let_def)

lemma set_getZoneState: "set (insideZones (getZoneState now w)) = occupancy w"
  by (simp add: getZoneState_def occupancy_def split: option.splits)

lemma occupancy_setZoneState: "occupancy (setZoneState s w) = set (insideZones s)"
  by (simp add: occupancy_def setZoneState_def)

lemma occupancy_applyOutput: "occupancy (applyOutput out w) = occupancy w"
  by (simp add: occupancy_def zone_store_applyOutput)

lemma occupancy_checkInitialPosition:
  "occupancy (checkInitialPosition fp zones now (Some loc) w) = set (currentlyInside fp zones loc)"
  by (simp add: checkInitialPosition_Some occupancy_setZoneState)

lemma occupancy_handleLocationUpdate:
  "occupancy (handleLocationUpdate fp zones now loc w) = set (currentlyInside fp zones loc)"
proof (cases "sort (currentlyInside fp zones loc) = sort (insideZones (getZoneState now w))")
  case True
  then have "set (sort (currentlyInside fp zones loc)) = set (sort (insideZones (getZoneState now w)))"
    by simp
  then have "set (currentlyInside fp zones loc) = occupancy w"
    by (simp add: set_getZoneState)
  with True show ?thesis
    by (simp add: handleLocationUpdate_char Let_def occupancy_applyOutput)
next
  case False
  then show ?thesis
    by (simp add: handleLocationUpdate_char Let_def occupancy_setZoneState)
qed

lemma sent_setZoneState: "sent (setZoneState s w) = sent w"
  by (simp add: setZoneState_def)

lemma getLogs_setZoneState: "getLogs (setZoneState s w) = getLogs w"
  by (simp add: setZoneState_def getLogs_def)

lemma logs_store_setZoneState: "logs_store (setZoneState s w) = logs_store w"
  by (simp add: setZoneState_def)

lemma sent_checkInitialPosition:
  "sent (checkInitialPosition fp zones now (Some loc) w) =
    sent w @ map fst (diffOutput fp ''initial_check'' now loc (insideZones (getZoneState now w)) zones)"
  by (simp add: checkInitialPosition_Some sent_setZoneState sent_applyOutput)

lemma getLogs_checkInitialPosition:
  "getLogs (checkInitialPosition fp zones now (Some loc) w) =
    pushAll (map snd (diffOutput fp ''initial_check'' now loc (insideZones (getZoneState now w)) zones))
      (getLogs w)"
  by (simp add: checkInitialPosition_Some getLogs_setZoneState getLogs_applyOutput)

lemma sent_handleLocationUpdate:
  "sent (handleLocationUpdate fp zones now loc w) =
    sent w @ map fst (diffOutput fp ''foreground_watch'' now loc (insideZones (getZoneState now w)) zones)"
  by (simp add: handleLocationUpdate_char Let_def sent_setZoneState sent_applyOutput)

lemma getLogs_handleLocationUpdate:
  "getLogs (handleLocationUpdate fp zones now loc w) =
    pushAll (map snd (diffOutput fp ''foreground_watch'' now loc (insideZones (getZoneState now w)) zones))
      (getLogs w)"
  by (simp add: handleLocationUpdate_char Let_def getLogs_setZoneState getLogs_applyOutput)

lemma dispatched_append: "sent w' = sent w @ ns \<Longrightarrow> dispatched w w' = ns"
  by (simp add: dispatched_def)

lemma dispatched_handleLocationUpdate:
  "dispatched w (handleLocationUpdate fp zones now loc w) =
     map fst (diffOutput fp ''foreground_watch'' now loc (insideZones (getZoneState now w)) zones)"
  by (rule dispatched_append) (rule sent_handleLocationUpdate)

lemma dispatched_checkInitialPosition:
  "dispatched w (checkInitialPosition fp zones now (Some loc) w) =
     map fst (diffOutput fp ''initial_check'' now loc (insideZones (getZoneState now w)) zones)"
  by (rule dispatched_append) (rule sent_checkInitialPosition)

lemma insideZones_checkInitialPosition:
  "insideZones (getZoneState now' (checkInitialPosition fp zones now (Some loc) w)) =
     currentlyInside fp zones loc"
  by (simp add: checkInitialPosition_Some getZoneState_def setZoneState_def)

section \<open>The diff\<close>

lemma notified_ENTER_diffOutput:
  "notified ENTER (map fst (diffOutput fp src now loc prev zones)) =
     entered (currentlyInside fp zones loc) prev"
  by (induction zones)
     (auto simp: notified_def diffOutput_def zoneOutput_def entered_def currentlyInside_def
        enterNotification_def exitNotification_def Let_def)

lemma notified_EXIT_diffOutput:
  "notified EXIT (map fst (diffOutput fp src now loc prev zones)) =
     map identifier (filter (\<lambda>g. \<not> isInside fp loc g \<and> identifier g \<in> set prev) zones)"
  by (induction zones)
     (auto simp: notified_def diffOutput_def zoneOutput_def
        enterNotification_def exitNotification_def Let_def)

lemma outside_not_current:
  assumes "distinct (map identifier zones)" "g \<in> set zones" "\<not> isInside fp loc g"
  shows "identifier g \<notin> set (currentlyInside fp zones loc)"
proof
  assume "identifier g \<in> set (currentlyInside fp zones loc)"
  then obtain g' where g': "g' \<in> set zones" "isInside fp loc g'" "identifier g' = identifier g"
    by (auto simp: currentlyInside_def)
  from assms(1) g'(1) assms(2) g'(3) have "g' = g"
    by (meson distinct_map inj_onD)
  with g'(2) assms(3) show False by simp
qed


lemma set_exit_ids:
  assumes "distinct (map identifier zones)"
  shows "set (map identifier (filter (\<lambda>g. \<not> isInside fp loc g \<and> identifier g \<in> set prev) zones)) =
     set (exited (currentlyInside fp zones loc) prev) \<inter> identifier ` set zones"
proof -
  have "\<And>g. g \<in> set zones \<Longrightarrow> isInside fp loc g \<Longrightarrow> identifier g \<in> set (currentlyInside fp zones loc)"
    by (auto simp: currentlyInside_def)
  with outside_not_current [OF assms] show ?thesis
    by (auto simp: exited_def)
qed

lemma distinct_map_filter_ids:
  "distinct (map identifier zones) \<Longrightarrow> distinct (map identifier (filter P zones))"
  by (simp add: distinct_map_filter)

lemma distinct_currentlyInside:
  "distinct (map identifier zones) \<Longrightarrow> distinct (currentlyInside fp zones loc)"
  by (simp add: currentlyInside_def distinct_map_filter)

lemma distinct_entered: "distinct cur \<Longrightarrow> distinct (entered cur prev)"
  by (simp add: entered_def)

lemma diffOutput_converged:
  assumes "distinct (map identifier zones)" "set prev = set (currentlyInside fp zones loc)"
  shows "diffOutput fp src now loc prev zones = []"
proof -
  have "zoneOutput fp src now loc prev g = []" if "g \<in> set zones" for g
  proof (cases "isInside fp loc g")
    case True
    with that have "identifier g \<in> set prev"
      by (auto simp: assms(2) currentlyInside_def)
    with True show ?thesis by (simp add: zoneOutput_def)
  next
    case False
    with outside_not_current [OF assms(1) that] have "identifier g \<notin> set prev"
      by (simp add: assms(2))
    with False show ?thesis by (simp add: zoneOutput_def)
  qed
  then show ?thesis by (simp add: diffOutput_def)
qed

lemma log_matches_notification:
  "map (\<lambda>(n, e). (e_type e, e_zoneName e)) (diffOutput fp src now loc prev zones) =
   map (\<lambda>(n, e). (n_event n, Some (n_zoneName n))) (diffOutput fp src now loc prev zones)"
  by (induction zones)
     (auto simp: diffOutput_def zoneOutput_def enterNotification_def exitNotification_def
        locationEvent_def Let_def)

lemma enter_in_diffOutput:
  assumes "g \<in> set zones" "isInside fp loc g" "identifier g \<notin> set prev"
  shows "enterNotification src now g \<in> set (map fst (diffOutput fp src now loc prev zones))"
proof -
  from assms(2,3) have "zoneOutput fp src now loc prev g
      = [(enterNotification src now g, locationEvent ENTER now loc g)]"
    by (simp add: zoneOutput_def)
  with assms(1) show ?thesis
    by (force simp: diffOutput_def)
qed

lemma exit_in_diffOutput:
  assumes "g \<in> set zones" "\<not> isInside fp loc g" "identifier g \<in> set prev"
  shows "exitNotification src now g \<in> set (map fst (diffOutput fp src now loc prev zones))"
proof -
  from assms(2,3) have "zoneOutput fp src now loc prev g
      = [(exitNotification src now g, locationEvent EXIT now loc g)]"
    by (simp add: zoneOutput_def)
  with assms(1) show ?thesis
    by (force simp: diffOutput_def)
qed

section \<open>Distances\<close>

lemma exactDistance_same: "exactDistance la lo la lo = 0"
  by (simp add: exactDistance_def exactRad_def atan2_def Let_def)

lemma hav_sym: "(sin (exactRad (b - a) / 2))\<^sup>2 = (sin (exactRad (a - b) / 2))\<^sup>2"
proof -
  have "exactRad (b - a) / 2 = - (exactRad (a - b) / 2)"
    by (simp add: exactRad_def field_simps)
  then show ?thesis by simp
qed

lemma exactDistance_sym:
  "exactDistance lat1 lon1 lat2 lon2 = exactDistance lat2 lon2 lat1 lon1"
  unfolding exactDistance_def Let_def
  by (simp only: hav_sym [of lat2 lat1] hav_sym [of lon2 lon1] mult.commute [of "cos (exactRad lat1)"])

lemma atan2_diag: "0 < x \<Longrightarrow> atan2 x x = pi / 4"
  by (simp add: atan2_def arctan_one)

lemma sin_quarter_sq: "(sin (pi / 4))\<^sup>2 = 1 / 2"
  by (simp add: sin_45 power2_eq_square)

lemma sin_mquarter_sq: "(sin (- (pi / 4)))\<^sup>2 = 1 / 2"
  by (simp add: sin_45 power2_eq_square)

lemma exactDistance_quarter: "exactDistance 0 0 0 90 = 3185500 * pi"
proof -
  have r: "exactRad (90 - 0) / 2 = pi / 4" by (simp add: exactRad_def)
  have a: "(sin (exactRad (90 - 0) / 2))\<^sup>2 = 1 / 2"
    by (simp only: r sin_quarter_sq)
  have "exactDistance 0 0 0 90 = 6371000 * 2 * atan2 (sqrt (1 / 2)) (sqrt (1 - 1 / 2))"
    unfolding exactDistance_def Let_def
    by (simp only: a) (simp add: exactRad_def)
  also have "\<dots> = 6371000 * 2 * atan2 (sqrt (1 / 2)) (sqrt (1 / 2))" by simp
  also have "\<dots> = 6371000 * 2 * (pi / 4)"
    by (subst atan2_diag) simp_all
  finally show ?thesis by simp
qed

lemma exactDistance_quarter': "exactDistance 0 180 0 90 = 3185500 * pi"
proof -
  have r: "exactRad (90 - 180) / 2 = - (pi / 4)" by (simp add: exactRad_def)
  have a: "(sin (exactRad (90 - 180) / 2))\<^sup>2 = 1 / 2"
    by (simp only: r sin_mquarter_sq)
  have "exactDistance 0 180 0 90 = 6371000 * 2 * atan2 (sqrt (1 / 2)) (sqrt (1 - 1 / 2))"
    unfolding exactDistance_def Let_def
    by (simp only: a) (simp add: exactRad_def)
  also have "\<dots> = 6371000 * 2 * atan2 (sqrt (1 / 2)) (sqrt (1 / 2))" by simp
  also have "\<dots> = 6371000 * 2 * (pi / 4)"
    by (subst atan2_diag) simp_all
  finally show ?thesis by simp
qed

lemma exactDistance_half: "exactDistance 0 0 0 180 = 6371000 * pi"
  by (simp add: exactDistance_def exactRad_def atan2_def Let_def)

lemma exactDistance_half': "exactDistance 0 180 0 0 = 6371000 * pi"
  by (simp add: exactDistance_sym [of 0 180 0 0] exactDistance_half)

lemma quarter_le: "3185500 * pi \<le> 13000000"
  using pi_less_4 by simp

lemma half_gt: "\<not> 6371000 * pi \<le> 1000"
  using pi_ge_two by simp

lemma exactRad_diff: "exactRad (x - y) = exactRad x - exactRad y"
  by (simp add: exactRad_def field_simps)

lemma exactDistance_hav:
  "exactDistance lat1 lon1 lat2 lon2 =
     6371000 * 2 * atan2 (sqrt (hav lat1 lon1 lat2 lon2)) (sqrt (1 - hav lat1 lon1 lat2 lon2))"
  by (simp add: exactDistance_def hav_def Let_def exactRad_diff)

lemma sin_half_sq: "(sin (x / 2))\<^sup>2 = (1 - cos x) / 2" for x :: real
  using cos_double_sin [of "x / 2"] by simp

lemma half_plus_cos_nonneg: "0 \<le> (1 + cos x) / 2" for x :: real
proof -
  have "0 \<le> 1 + cos x"
    using cos_ge_minus_one [of x] by linarith
  then show ?thesis by simp
qed

lemma hav_range: "0 \<le> hav lat1 lon1 lat2 lon2" "hav lat1 lon1 lat2 lon2 \<le> 1"
proof -
  define p q t A B where "p = exactRad lat1" and "q = exactRad lat2"
    and "t = (sin ((exactRad lon2 - exactRad lon1) / 2))\<^sup>2"
    and "A = (1 - cos (q - p)) / 2" and "B = (1 + cos (p + q)) / 2"
  have t: "0 \<le> t" "t \<le> 1"
    unfolding t_def by (simp_all add: abs_square_le_1)
  have A: "0 \<le> A" "A \<le> 1"
    unfolding A_def using cos_le_one [of "q - p"] cos_ge_minus_one [of "q - p"] by simp_all
  have B: "0 \<le> B" "B \<le> 1"
    unfolding B_def by (rule half_plus_cos_nonneg, simp)
  have c: "cos p * cos q = B - A"
    by (simp add: A_def B_def cos_diff cos_add field_simps)
  have "hav lat1 lon1 lat2 lon2 = A + cos p * cos q * t"
    by (simp add: hav_def p_def q_def t_def A_def sin_half_sq)
  then have h: "hav lat1 lon1 lat2 lon2 = (1 - t) * A + t * B"
    by (simp add: c algebra_simps)
  have "0 \<le> (1 - t) * A" "0 \<le> t * B"
    using t A B by simp_all
  then show "0 \<le> hav lat1 lon1 lat2 lon2"
    unfolding h by linarith
  have "(1 - t) * A \<le> (1 - t) * 1" "t * B \<le> t * 1"
    using t A B by (intro mult_left_mono; simp)+
  then show "hav lat1 lon1 lat2 lon2 \<le> 1"
    unfolding h by simp
qed




text \<open>In exact arithmetic \<open>calculateDistance\<close> gives the haversine distance.\<close>

lemma exactMath_ops:
  "op_add exactMath (Num x) (Num y) = Num (x + y)"
  "op_sub exactMath (Num x) (Num y) = Num (x - y)"
  "op_mul exactMath (Num x) (Num y) = Num (x * y)"
  "op_div exactMath (Num x) (Num y) = Num (x / y)"
  "op_pow exactMath (Num x) (Num 2) = Num (x * x)"
  "Math_sin exactMath (Num x) = Num (sin x)"
  "Math_cos exactMath (Num x) = Num (cos x)"
  "Math_sqrt exactMath (Num x) = (if x < 0 then NaN else Num (sqrt x))"
  "Math_atan2 exactMath (Num y) (Num x) = Num (atan2 y x)"
  "Math_PI exactMath = Num pi"
  by (simp_all add: exactMath_def)

lemma toRad_exactMath: "toRad exactMath (Num d) = Num (exactRad d)"
  by (simp add: toRad_def exactRad_def exactMath_ops)

lemma calculateDistance_exactMath:
  "calculateDistance exactMath (Num lat1) (Num lon1) (Num lat2) (Num lon2)
     = Num (exactDistance lat1 lon1 lat2 lon2)"
proof -
  define A where "A = hav lat1 lon1 lat2 lon2"
  have r: "0 \<le> A" "A \<le> 1"
    unfolding A_def by (rule hav_range)+
  have a: "op_add exactMath
      (op_pow exactMath
         (Math_sin exactMath
            (op_div exactMath (toRad exactMath (op_sub exactMath (Num lat2) (Num lat1))) (Num 2)))
         (Num 2))
      (op_mul exactMath
         (op_mul exactMath (Math_cos exactMath (toRad exactMath (Num lat1)))
            (Math_cos exactMath (toRad exactMath (Num lat2))))
         (op_pow exactMath
            (Math_sin exactMath
               (op_div exactMath (toRad exactMath (op_sub exactMath (Num lon2) (Num lon1))) (Num 2)))
            (Num 2))) = Num A"
    by (simp add: exactMath_ops toRad_exactMath A_def hav_def exactRad_diff power2_eq_square)
  have "calculateDistance exactMath (Num lat1) (Num lon1) (Num lat2) (Num lon2)
      = Num (6371000 * 2 * atan2 (sqrt A) (sqrt (1 - A)))"
    unfolding calculateDistance_def Let_def a using r by (simp add: exactMath_ops)
  then show ?thesis
    by (simp add: exactDistance_hav A_def)
qed

lemma isInside_exactMath:
  "isInside exactMath loc g \<longleftrightarrow>
     exactDistance (loc_latitude loc) (loc_longitude loc) (latitude g) (longitude g) \<le> radius g"
  by (simp add: isInside_def Let_def calculateDistance_exactMath)


section \<open>The example catalog\<close>

lemma isInside_examples:
  "isInside exactMath pointA zoneA" "isInside exactMath pointA zoneB"
  "\<not> isInside exactMath pointA zoneC"
  "\<not> isInside exactMath pointC zoneA" "isInside exactMath pointC zoneB"
  "isInside exactMath pointC zoneC"
  by (simp_all add: isInside_exactMath pointA_def pointC_def zoneA_def zoneB_def zoneC_def
        exactDistance_same exactDistance_quarter exactDistance_quarter'
        exactDistance_half exactDistance_half' quarter_le half_gt)

lemma ids_examples:
  "identifier zoneA = ''A''" "identifier zoneB = ''B''" "identifier zoneC = ''C''"
  by (simp_all add: zoneA_def zoneB_def zoneC_def)

lemma distinct_exampleZones: "distinct (map identifier exampleZones)"
  by (simp add: exampleZones_def ids_examples)

lemma currentlyInside_examples:
  "currentlyInside exactMath exampleZones pointA = [''A'', ''B'']"
  "currentlyInside exactMath exampleZones pointC = [''B'', ''C'']"
  by (simp_all add: currentlyInside_def exampleZones_def isInside_examples ids_examples)

lemma distinct_TEST_GEOFENCES: "distinct (map identifier TEST_GEOFENCES)"
  by (simp add: TEST_GEOFENCES_def)

lemma getZoneState_worldAB: "insideZones (getZoneState now worldAB) = [''A'', ''B'']"
  by (simp add: getZoneState_def worldAB_def freshWorld_def)

lemma sent_worldAB: "sent worldAB = []"
  by (simp add: worldAB_def freshWorld_def)

lemma occupancy_worldAB: "occupancy worldAB = {''A'', ''B''}"
  by (simp add: occupancy_def worldAB_def freshWorld_def)

lemma getZoneState_staleWorld: "insideZones (getZoneState now staleWorld) = [''removed-zone'']"
  by (simp add: getZoneState_def staleWorld_def freshWorld_def)

lemma diffOutput_example_events:
  "map (\<lambda>(n, e). (n_event n, n_geofenceId n)) (diffOutput exactMath src now pointC [''A'', ''B''] exampleZones)
     = [(EXIT, ''A''), (ENTER, ''C'')]"
  by (simp add: diffOutput_def zoneOutput_def exampleZones_def isInside_examples ids_examples
        enterNotification_def exitNotification_def Let_def)

lemma example_pass_events:
  "map (\<lambda>n. (n_event n, n_geofenceId n)) (sent (handleLocationUpdate exactMath exampleZones now pointC worldAB))
     = [(EXIT, ''A''), (ENTER, ''C'')]"
  "map (\<lambda>n. (n_event n, n_geofenceId n)) (sent (checkInitialPosition exactMath exampleZones now (Some pointC) worldAB))
     = [(EXIT, ''A''), (ENTER, ''C'')]"
  using diffOutput_example_events [of "''foreground_watch''" now]
    diffOutput_example_events [of "''initial_check''" now]
  by (simp_all add: sent_handleLocationUpdate sent_checkInitialPosition sent_worldAB
        getZoneState_worldAB case_prod_unfold comp_def)

lemma getGeofenceDetails_examples:
  "getGeofenceDetails exampleZones ''A'' = Some zoneA"
  "getGeofenceDetails exampleZones ''C'' = Some zoneC"
  by (simp_all add: getGeofenceDetails_def exampleZones_def ids_examples)

section \<open>Point-based reconciliation: the diff, and running it twice\<close>

text \<open>
  C1, as amended: for a catalog with unique identifiers, every stored inside-set
  \<open>prev\<close> and every point, both point-based passes dispatch exactly one ENTER
  notification for each identifier of \<open>entered = currentlyInside - previouslyInside\<close>,
  and exactly one EXIT notification for each identifier of
  \<open>exited = previouslyInside - currentlyInside\<close> that is an identifier of the catalog
  (a stored identifier that is not in the catalog gets no EXIT); each notification comes
  with one log entry of the same direction and zone; the occupancy set afterwards is
  \<open>currentlyInside\<close>.
\<close>

theorem point_reconciler_diff:
  fixes fp zones now loc w
  defines "prev \<equiv> insideZones (getZoneState now w)"
    and "cur \<equiv> currentlyInside fp zones loc"
    and "w1 \<equiv> handleLocationUpdate fp zones now loc w"
    and "out1 \<equiv> diffOutput fp ''foreground_watch'' now loc (insideZones (getZoneState now w)) zones"
    and "w2 \<equiv> checkInitialPosition fp zones now (Some loc) w"
    and "out2 \<equiv> diffOutput fp ''initial_check'' now loc (insideZones (getZoneState now w)) zones"
  assumes ids: "distinct (map identifier zones)"
  shows
    "sent w1 = sent w @ dispatched w w1
     \<and> notified ENTER (dispatched w w1) = entered cur prev
     \<and> distinct (notified ENTER (dispatched w w1))
     \<and> set (notified EXIT (dispatched w w1)) = set (exited cur prev) \<inter> identifier ` set zones
     \<and> distinct (notified EXIT (dispatched w w1))
     \<and> dispatched w w1 = map fst out1
     \<and> getLogs w1 = pushAll (map snd out1) (getLogs w)
     \<and> map (\<lambda>(n, e). (e_type e, e_zoneName e)) out1
         = map (\<lambda>(n, e). (n_event n, Some (n_zoneName n))) out1
     \<and> occupancy w1 = set cur
     \<and> sent w2 = sent w @ dispatched w w2
     \<and> notified ENTER (dispatched w w2) = entered cur prev
     \<and> distinct (notified ENTER (dispatched w w2))
     \<and> set (notified EXIT (dispatched w w2)) = set (exited cur prev) \<inter> identifier ` set zones
     \<and> distinct (notified EXIT (dispatched w w2))
     \<and> dispatched w w2 = map fst out2
     \<and> getLogs w2 = pushAll (map snd out2) (getLogs w)
     \<and> map (\<lambda>(n, e). (e_type e, e_zoneName e)) out2
         = map (\<lambda>(n, e). (n_event n, Some (n_zoneName n))) out2
     \<and> insideZones (getZoneState now w2) = cur"
proof -
  have d1: "dispatched w w1 = map fst out1"
    unfolding w1_def out1_def by (rule dispatched_handleLocationUpdate)
  have d2: "dispatched w w2 = map fst out2"
    unfolding w2_def out2_def by (rule dispatched_checkInitialPosition)
  have s1: "sent w1 = sent w @ dispatched w w1"
    unfolding d1 unfolding w1_def out1_def by (rule sent_handleLocationUpdate)
  have s2: "sent w2 = sent w @ dispatched w w2"
    unfolding d2 unfolding w2_def out2_def by (rule sent_checkInitialPosition)
  have en: "notified ENTER (map fst (diffOutput fp src now loc prev zones)) = entered cur prev" for src
    unfolding cur_def by (rule notified_ENTER_diffOutput)
  have den: "distinct (entered cur prev)"
    unfolding cur_def by (intro distinct_entered distinct_currentlyInside ids)
  have ex: "set (notified EXIT (map fst (diffOutput fp src now loc prev zones)))
      = set (exited cur prev) \<inter> identifier ` set zones" for src
    unfolding cur_def notified_EXIT_diffOutput by (rule set_exit_ids [OF ids])
  have dex: "distinct (notified EXIT (map fst (diffOutput fp src now loc prev zones)))" for src
    unfolding notified_EXIT_diffOutput by (rule distinct_map_filter_ids [OF ids])
  have l1: "getLogs w1 = pushAll (map snd out1) (getLogs w)"
    unfolding w1_def out1_def by (rule getLogs_handleLocationUpdate)
  have l2: "getLogs w2 = pushAll (map snd out2) (getLogs w)"
    unfolding w2_def out2_def by (rule getLogs_checkInitialPosition)
  have m1: "map (\<lambda>(n, e). (e_type e, e_zoneName e)) out1
         = map (\<lambda>(n, e). (n_event n, Some (n_zoneName n))) out1"
    unfolding out1_def by (rule log_matches_notification)
  have m2: "map (\<lambda>(n, e). (e_type e, e_zoneName e)) out2
         = map (\<lambda>(n, e). (n_event n, Some (n_zoneName n))) out2"
    unfolding out2_def by (rule log_matches_notification)
  have o1: "occupancy w1 = set cur"
    unfolding w1_def cur_def by (rule occupancy_handleLocationUpdate)
  have o2: "insideZones (getZoneState now w2) = cur"
    unfolding w2_def cur_def by (rule insideZones_checkInitialPosition)
  have p1: "out1 = diffOutput fp ''foreground_watch'' now loc prev zones"
    by (simp add: out1_def prev_def)
  have p2: "out2 = diffOutput fp ''initial_check'' now loc prev zones"
    by (simp add: out2_def prev_def)
  show ?thesis
    using s1 s2 d1 d2 l1 l2 m1 m2 o1 o2 den
      en [of "''foreground_watch''"] en [of "''initial_check''"]
      ex [of "''foreground_watch''"] ex [of "''initial_check''"]
      dex [of "''foreground_watch''"] dex [of "''initial_check''"]
    unfolding p1 p2 by simp
qed

theorem point_reconciler_diff_witness:
  "distinct (map identifier exampleZones)
   \<and> insideZones (getZoneState ''t1'' worldAB) = [''A'', ''B'']
   \<and> currentlyInside exactMath exampleZones pointC = [''B'', ''C'']
   \<and> notified ENTER (sent (handleLocationUpdate exactMath exampleZones ''t1'' pointC worldAB)) = [''C'']
   \<and> notified EXIT (sent (handleLocationUpdate exactMath exampleZones ''t1'' pointC worldAB)) = [''A'']
   \<and> length (sent (handleLocationUpdate exactMath exampleZones ''t1'' pointC worldAB)) = 2
   \<and> occupancy (handleLocationUpdate exactMath exampleZones ''t1'' pointC worldAB) = {''B'', ''C''}
   \<and> notified ENTER (sent (checkInitialPosition exactMath exampleZones ''t1'' (Some pointC) worldAB)) = [''C'']
   \<and> notified EXIT (sent (checkInitialPosition exactMath exampleZones ''t1'' (Some pointC) worldAB)) = [''A'']
   \<and> insideZones (getZoneState ''t1'' (checkInitialPosition exactMath exampleZones ''t1'' (Some pointC) worldAB))
       = [''B'', ''C'']"
proof -
  let ?W1 = "handleLocationUpdate exactMath exampleZones ''t1'' pointC worldAB"
  let ?W2 = "checkInitialPosition exactMath exampleZones ''t1'' (Some pointC) worldAB"
  let ?prev = "insideZones (getZoneState ''t1'' worldAB)"
  let ?cur = "currentlyInside exactMath exampleZones pointC"
  note t = point_reconciler_diff [OF distinct_exampleZones, where fp = exactMath
      and now = "''t1''" and loc = pointC and w = worldAB]
  from t have s1: "sent ?W1 = sent worldAB @ dispatched worldAB ?W1"
    by (elim conjE)
  from t have s2: "sent ?W2 = sent worldAB @ dispatched worldAB ?W2"
    by (elim conjE)
  from t have e1: "notified ENTER (dispatched worldAB ?W1) = entered ?cur ?prev"
    by (elim conjE)
  from t have e2: "notified ENTER (dispatched worldAB ?W2) = entered ?cur ?prev"
    by (elim conjE)
  from t have x1: "set (notified EXIT (dispatched worldAB ?W1))
      = set (exited ?cur ?prev) \<inter> identifier ` set exampleZones"
    by (elim conjE)
  from t have x2: "set (notified EXIT (dispatched worldAB ?W2))
      = set (exited ?cur ?prev) \<inter> identifier ` set exampleZones"
    by (elim conjE)
  from t have dx1: "distinct (notified EXIT (dispatched worldAB ?W1))"
    by (elim conjE)
  from t have dx2: "distinct (notified EXIT (dispatched worldAB ?W2))"
    by (elim conjE)
  from t have o1: "occupancy ?W1 = set ?cur"
    by (elim conjE)
  from t have o2: "insideZones (getZoneState ''t1'' ?W2) = ?cur"
    by (elim conjE)
  have en: "entered [''B'', ''C''] [''A'', ''B''] = [''C'']"
    by (simp add: entered_def)
  have ex: "set (exited [''B'', ''C''] [''A'', ''B'']) \<inter> identifier ` set exampleZones = {''A''}"
    by (auto simp: exited_def exampleZones_def ids_examples)
  have one: "distinct xs \<Longrightarrow> set xs = {a} \<Longrightarrow> xs = [a]" for xs :: "string list" and a
    by (cases xs) (auto simp: subset_singleton_iff)
  have len: "length ns = length (notified ENTER ns) + length (notified EXIT ns)" for ns
    by (induction ns) (auto simp: notified_def intro: EventType.exhaust)
  have S1: "sent ?W1 = dispatched worldAB ?W1"
    by (simp add: s1 sent_worldAB)
  have S2: "sent ?W2 = dispatched worldAB ?W2"
    by (simp add: s2 sent_worldAB)
  have E1: "notified ENTER (sent ?W1) = [''C'']"
    by (simp only: S1 e1 getZoneState_worldAB currentlyInside_examples en)
  have E2: "notified ENTER (sent ?W2) = [''C'']"
    by (simp only: S2 e2 getZoneState_worldAB currentlyInside_examples en)
  have X1: "notified EXIT (sent ?W1) = [''A'']"
    unfolding S1 using dx1
    by (rule one) (simp only: x1 getZoneState_worldAB currentlyInside_examples ex)
  have X2: "notified EXIT (sent ?W2) = [''A'']"
    unfolding S2 using dx2
    by (rule one) (simp only: x2 getZoneState_worldAB currentlyInside_examples ex)
  have L1: "length (sent ?W1) = 2"
    using len [of "sent ?W1"] by (simp add: E1 X1)
  have O1: "occupancy ?W1 = {''B'', ''C''}"
    by (simp add: o1 currentlyInside_examples)
  have O2: "insideZones (getZoneState ''t1'' ?W2) = [''B'', ''C'']"
    by (simp add: o2 currentlyInside_examples)
  show ?thesis
    using distinct_exampleZones getZoneState_worldAB [of "''t1''"] currentlyInside_examples(2)
      E1 X1 L1 O1 E2 X2 O2
    by blast
qed

lemma currentlyInside_subset: "set (currentlyInside fp zones loc) \<subseteq> identifier ` set zones"
  by (auto simp: currentlyInside_def)

lemma removed_zone_not_in_catalog: "''removed-zone'' \<notin> identifier ` set TEST_GEOFENCES"
  by (simp add: TEST_GEOFENCES_def)

text \<open>
  The claim as stated fails for a stored identifier that the catalog no longer has: the
  difference \<open>previouslyInside - currentlyInside\<close> holds it, and no EXIT is dispatched.
  Here the catalog is \<^verbatim>\<open>TEST_GEOFENCES\<close>, the stored identifier is \<open>removed-zone\<close> and the
  point is the centre of the first zone.
\<close>

theorem point_reconciler_stale_counterexample:
  "exited (currentlyInside exactMath TEST_GEOFENCES derbyCentre) (insideZones (getZoneState ''t1'' staleWorld))
     = [''removed-zone'']
   \<and> notified EXIT (dispatched staleWorld (handleLocationUpdate exactMath TEST_GEOFENCES ''t1'' derbyCentre staleWorld))
     = []
   \<and> notified EXIT (dispatched staleWorld (checkInitialPosition exactMath TEST_GEOFENCES ''t1'' (Some derbyCentre) staleWorld))
     = []
   \<and> set (notified EXIT (dispatched staleWorld (handleLocationUpdate exactMath TEST_GEOFENCES ''t1'' derbyCentre staleWorld)))
     \<noteq> set (exited (currentlyInside exactMath TEST_GEOFENCES derbyCentre) (insideZones (getZoneState ''t1'' staleWorld)))"
proof -
  have n: "''removed-zone'' \<notin> set (currentlyInside exactMath TEST_GEOFENCES derbyCentre)"
    using currentlyInside_subset [of exactMath TEST_GEOFENCES derbyCentre] removed_zone_not_in_catalog
    by blast
  have a: "exited (currentlyInside exactMath TEST_GEOFENCES derbyCentre) [''removed-zone''] = [''removed-zone'']"
    using n by (simp add: exited_def)
  have "filter (\<lambda>g. \<not> isInside exactMath derbyCentre g \<and> identifier g \<in> set [''removed-zone'']) TEST_GEOFENCES = []"
    using removed_zone_not_in_catalog by (force simp: filter_empty_conv)
  then have b: "notified EXIT (map fst (diffOutput exactMath src ''t1'' derbyCentre [''removed-zone''] TEST_GEOFENCES)) = []" for src
    by (simp only: notified_EXIT_diffOutput list.map)
  show ?thesis
    by (simp add: a b dispatched_handleLocationUpdate dispatched_checkInitialPosition
          getZoneState_staleWorld)
qed

lemma handleLocationUpdate_converged:
  assumes "distinct (map identifier zones)" "occupancy w = set (currentlyInside fp zones loc)"
  shows "sent (handleLocationUpdate fp zones now loc w) = sent w"
    and "logs_store (handleLocationUpdate fp zones now loc w) = logs_store w"
    and "dispatched w (handleLocationUpdate fp zones now loc w) = []"
proof -
  have "diffOutput fp ''foreground_watch'' now loc (insideZones (getZoneState now w)) zones = []"
    using assms by (intro diffOutput_converged) (simp_all add: set_getZoneState)
  then show "sent (handleLocationUpdate fp zones now loc w) = sent w"
    and "logs_store (handleLocationUpdate fp zones now loc w) = logs_store w"
    and "dispatched w (handleLocationUpdate fp zones now loc w) = []"
    by (simp_all add: handleLocationUpdate_char Let_def applyOutput_Nil sent_setZoneState
          logs_store_setZoneState dispatched_def)
qed

lemma checkInitialPosition_converged:
  assumes "distinct (map identifier zones)" "occupancy w = set (currentlyInside fp zones loc)"
  shows "sent (checkInitialPosition fp zones now (Some loc) w) = sent w"
    and "logs_store (checkInitialPosition fp zones now (Some loc) w) = logs_store w"
    and "dispatched w (checkInitialPosition fp zones now (Some loc) w) = []"
proof -
  have "diffOutput fp ''initial_check'' now loc (insideZones (getZoneState now w)) zones = []"
    using assms by (intro diffOutput_converged) (simp_all add: set_getZoneState)
  then show "sent (checkInitialPosition fp zones now (Some loc) w) = sent w"
    and "logs_store (checkInitialPosition fp zones now (Some loc) w) = logs_store w"
    and "dispatched w (checkInitialPosition fp zones now (Some loc) w) = []"
    by (simp_all add: checkInitialPosition_Some applyOutput_Nil sent_setZoneState
          logs_store_setZoneState dispatched_def)
qed

text \<open>
  C2: for a catalog with unique identifiers, every state and every point, a second
  point-based pass on the same point, right after a first, dispatches no notification and
  leaves the stored log as it is: for the foreground handler, for the initial check, and
  for the foreground handler after the initial check.
\<close>

theorem point_reconciliation_idempotent:
  fixes fp zones now1 now2 loc w
  defines "f1 \<equiv> handleLocationUpdate fp zones now1 loc w"
    and "f2 \<equiv> handleLocationUpdate fp zones now2 loc (handleLocationUpdate fp zones now1 loc w)"
    and "c1 \<equiv> checkInitialPosition fp zones now1 (Some loc) w"
    and "c2 \<equiv> checkInitialPosition fp zones now2 (Some loc) (checkInitialPosition fp zones now1 (Some loc) w)"
    and "cf \<equiv> handleLocationUpdate fp zones now2 loc (checkInitialPosition fp zones now1 (Some loc) w)"
  assumes ids: "distinct (map identifier zones)"
  shows
    "dispatched f1 f2 = [] \<and> sent f2 = sent f1 \<and> logs_store f2 = logs_store f1
     \<and> dispatched c1 c2 = [] \<and> sent c2 = sent c1 \<and> logs_store c2 = logs_store c1
     \<and> dispatched c1 cf = [] \<and> sent cf = sent c1 \<and> logs_store cf = logs_store c1"
proof -
  have of1: "occupancy f1 = set (currentlyInside fp zones loc)"
    unfolding f1_def by (rule occupancy_handleLocationUpdate)
  have oc1: "occupancy c1 = set (currentlyInside fp zones loc)"
    unfolding c1_def by (rule occupancy_checkInitialPosition)
  have f2: "f2 = handleLocationUpdate fp zones now2 loc f1"
    by (simp add: f2_def f1_def)
  have c2: "c2 = checkInitialPosition fp zones now2 (Some loc) c1"
    by (simp add: c2_def c1_def)
  have cf: "cf = handleLocationUpdate fp zones now2 loc c1"
    by (simp add: cf_def c1_def)
  show ?thesis
    unfolding f2 c2 cf
    using handleLocationUpdate_converged [OF ids of1, of now2]
      checkInitialPosition_converged [OF ids oc1, of now2]
      handleLocationUpdate_converged [OF ids oc1, of now2]
    by simp
qed

theorem point_reconciliation_idempotent_witness:
  "distinct (map identifier exampleZones)
   \<and> map (\<lambda>n. (n_event n, n_geofenceId n))
       (sent (handleLocationUpdate exactMath exampleZones ''t1'' pointC worldAB)) = [(EXIT, ''A''), (ENTER, ''C'')]
   \<and> map (\<lambda>n. (n_event n, n_geofenceId n))
       (sent (handleLocationUpdate exactMath exampleZones ''t2'' pointC
          (handleLocationUpdate exactMath exampleZones ''t1'' pointC worldAB))) = [(EXIT, ''A''), (ENTER, ''C'')]
   \<and> dispatched (handleLocationUpdate exactMath exampleZones ''t1'' pointC worldAB)
       (handleLocationUpdate exactMath exampleZones ''t2'' pointC
          (handleLocationUpdate exactMath exampleZones ''t1'' pointC worldAB)) = []
   \<and> dispatched (checkInitialPosition exactMath exampleZones ''t1'' (Some pointC) worldAB)
       (checkInitialPosition exactMath exampleZones ''t2'' (Some pointC)
          (checkInitialPosition exactMath exampleZones ''t1'' (Some pointC) worldAB)) = []"
proof -
  note t = point_reconciliation_idempotent [OF distinct_exampleZones, where fp = exactMath
      and ?now1.0 = "''t1''" and loc = pointC and w = worldAB and ?now2.0 = "''t2''"]
  from t have a: "sent (handleLocationUpdate exactMath exampleZones ''t2'' pointC
          (handleLocationUpdate exactMath exampleZones ''t1'' pointC worldAB))
      = sent (handleLocationUpdate exactMath exampleZones ''t1'' pointC worldAB)"
    by (elim conjE)
  from t have b: "dispatched (handleLocationUpdate exactMath exampleZones ''t1'' pointC worldAB)
       (handleLocationUpdate exactMath exampleZones ''t2'' pointC
          (handleLocationUpdate exactMath exampleZones ''t1'' pointC worldAB)) = []"
    by (elim conjE)
  from t have c: "dispatched (checkInitialPosition exactMath exampleZones ''t1'' (Some pointC) worldAB)
       (checkInitialPosition exactMath exampleZones ''t2'' (Some pointC)
          (checkInitialPosition exactMath exampleZones ''t1'' (Some pointC) worldAB)) = []"
    by (elim conjE)
  show ?thesis
    using distinct_exampleZones example_pass_events(1) [of "''t1''"] b c
    by (simp add: a)
qed

section \<open>Signal-based reconciliation\<close>

lemma occupancy_logEvent: "occupancy (logEvent e w) = occupancy w"
  by (simp add: occupancy_def logEvent_def)

lemma occupancy_sendAlertNotification: "occupancy (sendAlertNotification n w) = occupancy w"
  by (simp add: occupancy_def sendAlertNotification_def)

lemma occupancy_consoleWarn: "occupancy (consoleWarn m w) = occupancy w"
  by (simp add: occupancy_def consoleWarn_def)

lemma occupancy_consoleError: "occupancy (consoleError m w) = occupancy w"
  by (simp add: occupancy_def consoleError_def)

lemma occupancy_addToInsideZones:
  "occupancy (addToInsideZones now zoneId w) = insert zoneId (occupancy w)"
proof (cases "zoneId \<in> set (insideZones (getZoneState now w))")
  case True
  then show ?thesis
    by (auto simp: addToInsideZones_def Let_def set_getZoneState)
next
  case False
  then show ?thesis
    by (simp add: addToInsideZones_def Let_def occupancy_setZoneState set_getZoneState)
qed

lemma occupancy_removeFromInsideZones:
  "z \<noteq> zoneId \<Longrightarrow> z \<in> occupancy (removeFromInsideZones now zoneId w) \<longleftrightarrow> z \<in> occupancy w"
  by (simp add: removeFromInsideZones_def Let_def occupancy_setZoneState
        set_getZoneState [symmetric, of w now])

lemma occupancy_removeFromInsideZones_distinct:
  assumes "distinct (insideZones (getZoneState now w))"
  shows "occupancy (removeFromInsideZones now zoneId w) = occupancy w - {zoneId}"
proof (cases "zoneId \<in> set (insideZones (getZoneState now w))")
  case True
  with assms show ?thesis
    by (simp add: removeFromInsideZones_def Let_def occupancy_setZoneState
          set_getZoneState [symmetric, of w now])
next
  case False
  then show ?thesis
    by (simp add: removeFromInsideZones_def Let_def set_getZoneState [symmetric, of w now])
qed

lemma occupancy_geofenceTask:
  assumes "signalZone data \<noteq> Some z"
  shows "z \<in> occupancy (geofenceTask zones now data error w) \<longleftrightarrow> z \<in> occupancy w"
proof (cases error)
  case (Some m)
  then show ?thesis
    by (simp add: geofenceTask_def occupancy_logEvent occupancy_consoleError)
next
  case None
  show ?thesis
  proof (cases data)
    case nodata: None
    with None show ?thesis
      by (simp add: geofenceTask_def occupancy_consoleWarn)
  next
    case (Some d)
    show ?thesis
    proof (cases "eventType d")
      case noet: None
      with None Some show ?thesis
        by (simp add: geofenceTask_def occupancy_consoleWarn)
    next
      case et: (Some et)
      show ?thesis
      proof (cases "region d")
        case noreg: None
        with None Some et show ?thesis
          by (simp add: geofenceTask_def occupancy_consoleWarn)
      next
        case reg: (Some reg)
        show ?thesis
        proof (cases "r_identifier reg")
          case noid: None
          with None Some et reg show ?thesis
            by (simp add: geofenceTask_def occupancy_consoleWarn)
        next
          case ident: (Some ident)
          with assms Some reg have ne: "z \<noteq> ident"
            by (auto simp: signalZone_def)
          with None Some et reg ident show ?thesis
            by (simp add: geofenceTask_def Let_def occupancy_consoleWarn occupancy_logEvent
                  occupancy_sendAlertNotification occupancy_addToInsideZones
                  occupancy_removeFromInsideZones split: option.splits)
        qed
      qed
    qed
  qed
qed

lemma geofenceTask_known:
  assumes "getGeofenceDetails zones zoneId = Some g" "zoneId \<noteq> []" "r_identifier reg = Some zoneId"
  shows "geofenceTask zones now (Some \<lparr>eventType = Some et, region = Some reg\<rparr>) None w =
    logEvent (regionEvent (et = Enter) now reg g)
      (sendAlertNotification (taskNotification now (et = Enter) g)
        (if et = Enter then addToInsideZones now zoneId w else removeFromInsideZones now zoneId w))"
  using assms by (simp add: geofenceTask_def Let_def)

text \<open>
  C3: a signal changes the membership of the zone it names only. \<open>addToInsideZones\<close>
  adds the identifier and \<open>removeFromInsideZones\<close> leaves every other identifier as
  it is, and removes the identifier when the stored list has no duplicates; the
  background task, whatever its data and error, leaves the membership of every
  identifier other than the one of its region as it is, and for a region of the catalog
  adds the identifier on Enter and removes it on Exit.
\<close>

theorem signal_frame:
  "occupancy (addToInsideZones now zoneId w) = insert zoneId (occupancy w)
   \<and> (z \<noteq> zoneId \<longrightarrow>
        (z \<in> occupancy (removeFromInsideZones now zoneId w) \<longleftrightarrow> z \<in> occupancy w))
   \<and> (distinct (insideZones (getZoneState now w)) \<longrightarrow>
        occupancy (removeFromInsideZones now zoneId w) = occupancy w - {zoneId})
   \<and> (signalZone data \<noteq> Some z \<longrightarrow>
        (z \<in> occupancy (geofenceTask zones now data error w) \<longleftrightarrow> z \<in> occupancy w))
   \<and> (getGeofenceDetails zones zoneId \<noteq> None \<and> zoneId \<noteq> [] \<and> r_identifier reg = Some zoneId \<longrightarrow>
        occupancy (geofenceTask zones now (Some \<lparr>eventType = Some Enter, region = Some reg\<rparr>) None w)
          = insert zoneId (occupancy w)
        \<and> (distinct (insideZones (getZoneState now w)) \<longrightarrow>
             occupancy (geofenceTask zones now (Some \<lparr>eventType = Some Exit, region = Some reg\<rparr>) None w)
               = occupancy w - {zoneId}))"
proof -
  have known: "occupancy (geofenceTask zones now (Some \<lparr>eventType = Some Enter, region = Some reg\<rparr>) None w)
          = insert zoneId (occupancy w)
        \<and> (distinct (insideZones (getZoneState now w)) \<longrightarrow>
             occupancy (geofenceTask zones now (Some \<lparr>eventType = Some Exit, region = Some reg\<rparr>) None w)
               = occupancy w - {zoneId})"
    if "getGeofenceDetails zones zoneId = Some g" "zoneId \<noteq> []" "r_identifier reg = Some zoneId" for g
    by (simp add: geofenceTask_known [OF that] occupancy_logEvent occupancy_sendAlertNotification
          occupancy_addToInsideZones occupancy_removeFromInsideZones_distinct)
  show ?thesis
    using known occupancy_geofenceTask [of data z zones now error w]
      occupancy_removeFromInsideZones [of z zoneId now w]
      occupancy_removeFromInsideZones_distinct [of now w zoneId]
    by (auto simp: occupancy_addToInsideZones)
qed

theorem signal_frame_witness:
  "occupancy worldAB = {''A'', ''B''}
   \<and> occupancy (geofenceTask exampleZones ''t1''
        (Some \<lparr>eventType = Some Exit, region = Some (toRegion zoneA)\<rparr>) None worldAB) = {''B''}
   \<and> occupancy (geofenceTask exampleZones ''t1''
        (Some \<lparr>eventType = Some Enter, region = Some (toRegion zoneC)\<rparr>) None worldAB)
       = {''A'', ''B'', ''C''}
   \<and> (''B'' \<in> occupancy (geofenceTask exampleZones ''t1''
        (Some \<lparr>eventType = Some Exit, region = Some (toRegion zoneA)\<rparr>) None worldAB)
      \<longleftrightarrow> ''B'' \<in> occupancy worldAB)"
proof -
  have ra: "r_identifier (toRegion zoneA) = Some ''A''"
    by (simp add: toRegion_def ids_examples)
  have rc: "r_identifier (toRegion zoneC) = Some ''C''"
    by (simp add: toRegion_def ids_examples)
  have d: "distinct (insideZones (getZoneState ''t1'' worldAB))"
    by (simp add: getZoneState_worldAB)
  have sz: "signalZone (Some \<lparr>eventType = Some Exit, region = Some (toRegion zoneA)\<rparr>) \<noteq> Some ''B''"
    by (simp add: signalZone_def ra)
  have a: "occupancy (geofenceTask exampleZones ''t1''
        (Some \<lparr>eventType = Some Exit, region = Some (toRegion zoneA)\<rparr>) None worldAB)
      = occupancy worldAB - {''A''}"
    using signal_frame [of "''t1''" "''A''" worldAB _ _ exampleZones _ "toRegion zoneA"] d ra
    by (simp add: getGeofenceDetails_examples)
  have c: "occupancy (geofenceTask exampleZones ''t1''
        (Some \<lparr>eventType = Some Enter, region = Some (toRegion zoneC)\<rparr>) None worldAB)
      = insert ''C'' (occupancy worldAB)"
    using signal_frame [of "''t1''" "''C''" worldAB _ _ exampleZones _ "toRegion zoneC"] rc
    by (simp add: getGeofenceDetails_examples)
  have b: "''B'' \<in> occupancy (geofenceTask exampleZones ''t1''
        (Some \<lparr>eventType = Some Exit, region = Some (toRegion zoneA)\<rparr>) None worldAB)
      \<longleftrightarrow> ''B'' \<in> occupancy worldAB"
    using signal_frame [of "''t1''" "''A''" worldAB "''B''"
        "Some \<lparr>eventType = Some Exit, region = Some (toRegion zoneA)\<rparr>" exampleZones None] sz
    by blast
  show ?thesis
    using a b c by (auto simp: occupancy_worldAB)
qed

text \<open>The stored list stays free of duplicates, which is what the removal relies on.\<close>

lemma insideZones_now: "insideZones (getZoneState n w) = insideZones (getZoneState n' w)"
  by (simp add: getZoneState_def split: option.splits)

lemma insideZones_frame:
  "insideZones (getZoneState n (logEvent e w)) = insideZones (getZoneState n w)"
  "insideZones (getZoneState n (sendAlertNotification m w)) = insideZones (getZoneState n w)"
  "insideZones (getZoneState n (consoleWarn s w)) = insideZones (getZoneState n w)"
  "insideZones (getZoneState n (consoleError s w)) = insideZones (getZoneState n w)"
  by (simp_all add: getZoneState_def logEvent_def sendAlertNotification_def consoleWarn_def
        consoleError_def)

lemma distinct_addToInsideZones:
  assumes "distinct (insideZones (getZoneState n w))"
  shows "distinct (insideZones (getZoneState n (addToInsideZones now z w)))"
proof (cases "z \<in> set (insideZones (getZoneState now w))")
  case True
  with assms show ?thesis by (simp add: addToInsideZones_def Let_def)
next
  case False
  moreover from assms have "distinct (insideZones (getZoneState now w))"
    by (simp add: insideZones_now [of now w n])
  ultimately show ?thesis
    by (simp add: addToInsideZones_def Let_def getZoneState_def setZoneState_def)
qed

lemma distinct_removeFromInsideZones:
  assumes "distinct (insideZones (getZoneState n w))"
  shows "distinct (insideZones (getZoneState n (removeFromInsideZones now z w)))"
proof (cases "z \<in> set (insideZones (getZoneState now w))")
  case False
  with assms show ?thesis by (simp add: removeFromInsideZones_def Let_def)
next
  case True
  moreover from assms have "distinct (insideZones (getZoneState now w))"
    by (simp add: insideZones_now [of now w n])
  ultimately show ?thesis
    by (simp add: removeFromInsideZones_def Let_def getZoneState_def setZoneState_def)
qed

lemma distinct_geofenceTask:
  assumes "distinct (insideZones (getZoneState n w))"
  shows "distinct (insideZones (getZoneState n (geofenceTask zones now data error w)))"
  using assms
  by (auto simp: geofenceTask_def Let_def insideZones_frame distinct_addToInsideZones
        distinct_removeFromInsideZones split: option.splits)

lemma distinct_checkInitialPosition:
  assumes "distinct (map identifier zones)"
  shows "distinct (insideZones (getZoneState n (checkInitialPosition fp zones now (Some loc) w)))"
  using assms by (simp add: insideZones_checkInitialPosition distinct_currentlyInside)

lemma insideZones_applyOutput:
  "insideZones (getZoneState n (applyOutput out w)) = insideZones (getZoneState n w)"
  by (simp add: getZoneState_def zone_store_applyOutput)

lemma distinct_handleLocationUpdate:
  assumes "distinct (map identifier zones)" "distinct (insideZones (getZoneState n w))"
  shows "distinct (insideZones (getZoneState n (handleLocationUpdate fp zones now loc w)))"
proof (cases "sort (currentlyInside fp zones loc) = sort (insideZones (getZoneState now w))")
  case True
  with assms(2) show ?thesis
    by (simp add: handleLocationUpdate_char Let_def insideZones_applyOutput)
next
  case False
  with assms(1) show ?thesis
    by (simp add: handleLocationUpdate_char Let_def getZoneState_def setZoneState_def
          distinct_currentlyInside)
qed

section \<open>Stopping\<close>

lemma stopGeofencing_registered:
  assumes "task_registered w"
  shows "zone_store (stopGeofencing w) = None \<and> occupancy (stopGeofencing w) = {}
    \<and> \<not> task_registered (stopGeofencing w) \<and> \<not> locationSubscription (stopGeofencing w)"
  using assms
  by (simp add: stopGeofencing_def stopLocationWatching_def stopGeofencingAsync_def
        clearZoneState_def occupancy_def Let_def)

lemma stopGeofencing_unregistered:
  assumes "\<not> task_registered w"
  shows "zone_store (stopGeofencing w) = zone_store w \<and> \<not> locationSubscription (stopGeofencing w)"
  using assms
  by (simp add: stopGeofencing_def stopLocationWatching_def Let_def)

lemma sent_startLocationWatching: "sent (startLocationWatching w) = sent w"
  by (simp add: startLocationWatching_def stopLocationWatching_def)

lemma checkInitialPosition_sent_cong:
  assumes "zone_store v = zone_store w" "sent v = sent w"
  shows "sent (checkInitialPosition fp zones now (Some loc) v) = sent (checkInitialPosition fp zones now (Some loc) w)"
  using assms by (simp add: sent_checkInitialPosition getZoneState_def)

lemma sent_startGeofencing:
  assumes "fg a = granted" "bg a = granted" "notif a = granted" "initialPosition a = Some loc"
  shows "sent (snd (startGeofencing fp zones now a w)) =
     sent w @ map fst (diffOutput fp ''initial_check'' now loc (insideZones (getZoneState now w)) zones)"
proof -
  let ?w1 = "if task_registered w then stopGeofencingAsync w else w"
  let ?w2 = "startGeofencingAsync (map toRegion zones) ?w1"
  let ?w3 = "case debugPosition a of Some location \<Rightarrow> ?w2
             | None \<Rightarrow> consoleWarn (enterPrefix @ ''Could not get current location:'') ?w2"
  have z: "zone_store ?w3 = zone_store w"
    by (simp add: stopGeofencingAsync_def startGeofencingAsync_def consoleWarn_def
          split: option.splits)
  have s: "sent ?w3 = sent w"
    by (simp add: stopGeofencingAsync_def startGeofencingAsync_def consoleWarn_def
          split: option.splits)
  have "snd (startGeofencing fp zones now a w) =
      startLocationWatching (checkInitialPosition fp zones now (Some loc) ?w3)"
    using assms by (simp add: startGeofencing_def Let_def)
  then have "sent (snd (startGeofencing fp zones now a w)) =
      sent (checkInitialPosition fp zones now (Some loc) w)"
    by (simp only: sent_startLocationWatching checkInitialPosition_sent_cong [OF z s])
  then show ?thesis
    by (simp only: sent_checkInitialPosition)
qed

lemma isInside_derbyCentre: "isInside exactMath derbyCentre (hd TEST_GEOFENCES)"
  by (simp add: isInside_exactMath derbyCentre_def TEST_GEOFENCES_def exactDistance_same)

lemma derbyCentre_current: "''flood-derby-center'' \<in> set (currentlyInside exactMath TEST_GEOFENCES derbyCentre)"
proof -
  have "hd TEST_GEOFENCES \<in> set TEST_GEOFENCES" "identifier (hd TEST_GEOFENCES) = ''flood-derby-center''"
    by (simp_all add: TEST_GEOFENCES_def)
  with isInside_derbyCentre show ?thesis
    by (force simp: currentlyInside_def)
qed

text \<open>
  C4 fails when the background task is not registered: \<open>stopGeofencing\<close> returns
  before it clears the zone state. With the first zone of the catalog stored and the task
  not registered, the state after \<open>stopGeofencing\<close> still holds the zone, and a
  following \<open>startGeofencing\<close> at the centre of that zone dispatches no ENTER for it,
  whatever the arithmetic, where it does from a cleared state (the distance of a point
  from itself is 0).
\<close>

theorem stopGeofencing_keeps_stale_state:
  "\<not> task_registered leftoverWorld
   \<and> occupancy leftoverWorld = {''flood-derby-center''}
   \<and> zone_store (stopGeofencing leftoverWorld) = zone_store leftoverWorld
   \<and> occupancy (stopGeofencing leftoverWorld) = {''flood-derby-center''}
   \<and> ''flood-derby-center'' \<in> set (currentlyInside exactMath TEST_GEOFENCES derbyCentre)
   \<and> ''flood-derby-center'' \<notin> set (notified ENTER (dispatched (stopGeofencing leftoverWorld)
        (snd (startGeofencing fp TEST_GEOFENCES ''t1'' (allGranted derbyCentre) (stopGeofencing leftoverWorld)))))
   \<and> ''flood-derby-center'' \<in> set (notified ENTER (dispatched (clearZoneState leftoverWorld)
        (snd (startGeofencing exactMath TEST_GEOFENCES ''t1'' (allGranted derbyCentre) (clearZoneState leftoverWorld)))))"
proof -
  have nr: "\<not> task_registered leftoverWorld"
    by (simp add: leftoverWorld_def freshWorld_def)
  have oc: "occupancy leftoverWorld = {''flood-derby-center''}"
    by (simp add: occupancy_def leftoverWorld_def freshWorld_def)
  have zs: "zone_store (stopGeofencing leftoverWorld) = zone_store leftoverWorld"
    using stopGeofencing_unregistered [OF nr] by simp
  then have oc': "occupancy (stopGeofencing leftoverWorld) = {''flood-derby-center''}"
    by (simp add: occupancy_def oc [unfolded occupancy_def])
  have g: "fg (allGranted derbyCentre) = granted" "bg (allGranted derbyCentre) = granted"
    "notif (allGranted derbyCentre) = granted" "initialPosition (allGranted derbyCentre) = Some derbyCentre"
    by (simp_all add: allGranted_def)
  have d: "dispatched v (snd (startGeofencing ar TEST_GEOFENCES ''t1'' (allGranted derbyCentre) v))
      = map fst (diffOutput ar ''initial_check'' ''t1'' derbyCentre (insideZones (getZoneState ''t1'' v)) TEST_GEOFENCES)" for v ar
    by (rule dispatched_append) (rule sent_startGeofencing [OF g])
  have stale: "''flood-derby-center'' \<notin> set (notified ENTER (dispatched (stopGeofencing leftoverWorld)
        (snd (startGeofencing fp TEST_GEOFENCES ''t1'' (allGranted derbyCentre) (stopGeofencing leftoverWorld)))))"
    by (simp add: d notified_ENTER_diffOutput entered_def set_getZoneState oc')
  have "occupancy (clearZoneState leftoverWorld) = {}"
    by (simp add: occupancy_def clearZoneState_def)
  then have clean: "''flood-derby-center'' \<in> set (notified ENTER (dispatched (clearZoneState leftoverWorld)
        (snd (startGeofencing exactMath TEST_GEOFENCES ''t1'' (allGranted derbyCentre) (clearZoneState leftoverWorld)))))"
    by (simp add: d notified_ENTER_diffOutput entered_def set_getZoneState derbyCentre_current)
  from nr oc zs oc' derbyCentre_current stale clean show ?thesis by blast
qed

section \<open>Positioning failures\<close>

lemma geofenceTask_error:
  "geofenceTask zones now data (Some m) w =
     logEvent (errorEvent now m) (consoleError ''Geofence task error:'' w)"
  by (simp add: geofenceTask_def)

lemma geofenceTask_no_signal:
  assumes "case data of None \<Rightarrow> True | Some d \<Rightarrow> eventType d = None \<or> region d = None"
  shows "geofenceTask zones now data None w = consoleWarn ''Missing event type or region'' w"
  using assms by (auto simp: geofenceTask_def split: option.splits)

lemma geofenceTask_no_identifier:
  assumes "data = Some d" "eventType d = Some et" "region d = Some reg"
    "r_identifier reg = None \<or> r_identifier reg = Some []"
  shows "geofenceTask zones now data None w
     = consoleWarn (enterPrefix @ ''Geofence region had no identifier'') w"
  using assms by (auto simp: geofenceTask_def split: option.splits)

lemma consoleWarn_frame:
  "zone_store (consoleWarn m w) = zone_store w" "sent (consoleWarn m w) = sent w"
  "logs_store (consoleWarn m w) = logs_store w" "console (consoleWarn m w) = console w @ [Warn m]"
  by (simp_all add: consoleWarn_def)

lemma consoleError_frame:
  "zone_store (consoleError m w) = zone_store w" "sent (consoleError m w) = sent w"
  "logs_store (consoleError m w) = logs_store w" "console (consoleError m w) = console w @ [Err m]"
  "getLogs (consoleError m w) = getLogs w"
  by (simp_all add: consoleError_def getLogs_def)

text \<open>
  C8, as amended: when the background task gets an error, or data without an event type,
  a region or a region identifier, and when the position query of the initial check
  throws, the stored zone state is unchanged and no notification is dispatched. A
  diagnostic error event is appended to the event log in the first case only: the entry
  \<open>ERROR: message\<close> of type ENTER, with no region, location, category or severity,
  beside a \<^verbatim>\<open>console.error\<close>. In the other cases the event log is unchanged and the
  diagnostic is one \<^verbatim>\<open>console.warn\<close> (missing data) or \<^verbatim>\<open>console.error\<close> (initial
  check).
\<close>

theorem positioning_failure_atomic:
  "(signalMissing data error \<longrightarrow>
      zone_store (geofenceTask zones now data error w) = zone_store w
      \<and> sent (geofenceTask zones now data error w) = sent w
      \<and> (case error of
            Some m \<Rightarrow>
              getLogs (geofenceTask zones now data error w)
                = pushLog \<lparr>e_type = ENTER, e_timestamp = now, e_region = None, e_location = None,
                           e_disasterType = None, e_severity = None,
                           e_zoneName = Some (''ERROR: '' @ m)\<rparr> (getLogs w)
              \<and> console (geofenceTask zones now data error w)
                = console w @ [Err ''Geofence task error:'']
          | None \<Rightarrow>
              logs_store (geofenceTask zones now data error w) = logs_store w
              \<and> console (geofenceTask zones now data error w)
                = console w @
                  [Warn (if (case data of None \<Rightarrow> True
                                | Some d \<Rightarrow> eventType d = None \<or> region d = None)
                         then ''Missing event type or region''
                         else enterPrefix @ ''Geofence region had no identifier'')]))
   \<and> zone_store (checkInitialPosition fp zones now None w) = zone_store w
   \<and> sent (checkInitialPosition fp zones now None w) = sent w
   \<and> logs_store (checkInitialPosition fp zones now None w) = logs_store w
   \<and> console (checkInitialPosition fp zones now None w)
       = console w @ [Err (errorPrefix @ ''Error checking initial position:'')]"
proof -
  let ?t = "geofenceTask zones now data error w"
  have task: "zone_store ?t = zone_store w \<and> sent ?t = sent w
      \<and> (case error of
            Some m \<Rightarrow>
              getLogs ?t
                = pushLog \<lparr>e_type = ENTER, e_timestamp = now, e_region = None, e_location = None,
                           e_disasterType = None, e_severity = None,
                           e_zoneName = Some (''ERROR: '' @ m)\<rparr> (getLogs w)
              \<and> console ?t = console w @ [Err ''Geofence task error:'']
          | None \<Rightarrow>
              logs_store ?t = logs_store w
              \<and> console ?t
                = console w @
                  [Warn (if (case data of None \<Rightarrow> True
                                | Some d \<Rightarrow> eventType d = None \<or> region d = None)
                         then ''Missing event type or region''
                         else enterPrefix @ ''Geofence region had no identifier'')])"
    if miss: "signalMissing data error"
  proof (cases error)
    case (Some m)
    then show ?thesis
      by (simp add: geofenceTask_error zone_store_logEvent sent_logEvent console_logEvent
            getLogs_logEvent consoleError_frame errorEvent_def)
  next
    case None
    show ?thesis
    proof (cases "case data of None \<Rightarrow> True | Some d \<Rightarrow> eventType d = None \<or> region d = None")
      case True
      with None show ?thesis
        by (simp add: geofenceTask_no_signal consoleWarn_frame)
    next
      case False
      then obtain d et reg where d: "data = Some d" "eventType d = Some et" "region d = Some reg"
        by (auto split: option.splits)
      with miss None have "r_identifier reg = None \<or> r_identifier reg = Some []"
        by (simp add: signalMissing_def)
      from geofenceTask_no_identifier [OF d this] None False show ?thesis
        by (simp add: consoleWarn_frame)
    qed
  qed
  have init: "checkInitialPosition fp zones now None w
      = consoleError (errorPrefix @ ''Error checking initial position:'') w"
    by (simp add: checkInitialPosition_def)
  show ?thesis
    using task by (simp add: init consoleError_frame)
qed

theorem positioning_failure_atomic_witness:
  "signalMissing None (Some ''gps unavailable'')
   \<and> signalMissing (Some \<lparr>eventType = Some Enter, region = None\<rparr>) None
   \<and> zone_store (geofenceTask exampleZones ''t1'' None (Some ''gps unavailable'') worldAB)
       = zone_store worldAB
   \<and> sent (geofenceTask exampleZones ''t1'' None (Some ''gps unavailable'') worldAB) = []
   \<and> getLogs (geofenceTask exampleZones ''t1'' None (Some ''gps unavailable'') worldAB)
       = [\<lparr>e_type = ENTER, e_timestamp = ''t1'', e_region = None, e_location = None,
           e_disasterType = None, e_severity = None,
           e_zoneName = Some ''ERROR: gps unavailable''\<rparr>]
   \<and> console (geofenceTask exampleZones ''t1'' None (Some ''gps unavailable'') worldAB)
       = [Err ''Geofence task error:'']
   \<and> zone_store (geofenceTask exampleZones ''t1''
        (Some \<lparr>eventType = Some Enter, region = None\<rparr>) None worldAB) = zone_store worldAB
   \<and> sent (geofenceTask exampleZones ''t1''
        (Some \<lparr>eventType = Some Enter, region = None\<rparr>) None worldAB) = []
   \<and> logs_store (geofenceTask exampleZones ''t1''
        (Some \<lparr>eventType = Some Enter, region = None\<rparr>) None worldAB) = None
   \<and> console (geofenceTask exampleZones ''t1''
        (Some \<lparr>eventType = Some Enter, region = None\<rparr>) None worldAB)
       = [Warn ''Missing event type or region'']"
proof -
  have m1: "signalMissing None (Some ''gps unavailable'')"
    by (simp add: signalMissing_def)
  have m2: "signalMissing (Some \<lparr>eventType = Some Enter, region = None\<rparr>) None"
    by (simp add: signalMissing_def)
  have l: "getLogs worldAB = []" "logs_store worldAB = None" "console worldAB = []"
    by (simp_all add: getLogs_def worldAB_def freshWorld_def)
  have p: "pushLog e [] = [e]" for e
    by (simp add: pushLog_def)
  show ?thesis
    using m1 m2
      positioning_failure_atomic [of None "Some ''gps unavailable''" exampleZones "''t1''" worldAB]
      positioning_failure_atomic [of "Some \<lparr>eventType = Some Enter, region = None\<rparr>" None
        exampleZones "''t1''" worldAB]
    by (simp add: sent_worldAB l p)
qed

text \<open>
  The claim as stated fails where it says that every such failure logs a diagnostic error
  event: for data without a region, and for an initial check whose position query throws,
  nothing is appended to the event log, which stays absent; the failure is reported on the
  console only.
\<close>

theorem positioning_failure_not_logged_counterexample:
  "signalMissing (Some \<lparr>eventType = Some Enter, region = None\<rparr>) None
   \<and> logs_store worldAB = None
   \<and> logs_store (geofenceTask exampleZones ''t1''
        (Some \<lparr>eventType = Some Enter, region = None\<rparr>) None worldAB) = None
   \<and> getLogs (geofenceTask exampleZones ''t1''
        (Some \<lparr>eventType = Some Enter, region = None\<rparr>) None worldAB) = []
   \<and> logs_store (checkInitialPosition exactMath exampleZones ''t1'' None worldAB) = None
   \<and> getLogs (checkInitialPosition exactMath exampleZones ''t1'' None worldAB) = []"
proof -
  have l: "logs_store worldAB = None"
    by (simp add: worldAB_def freshWorld_def)
  have t: "geofenceTask exampleZones ''t1'' (Some \<lparr>eventType = Some Enter, region = None\<rparr>) None worldAB
      = consoleWarn ''Missing event type or region'' worldAB"
    by (rule geofenceTask_no_signal) simp
  have c: "checkInitialPosition exactMath exampleZones ''t1'' None worldAB
      = consoleError (errorPrefix @ ''Error checking initial position:'') worldAB"
    by (simp add: checkInitialPosition_def)
  show ?thesis
    by (simp add: t c l signalMissing_def getLogs_def consoleWarn_frame consoleError_frame)
qed

section \<open>Containment\<close>



section \<open>The notify flags\<close>

lemma isInside_flags: "isInside fp loc (g\<lparr>notifyOnEnter := a, notifyOnExit := b\<rparr>) = isInside fp loc g"
  by (simp add: isInside_def)

lemma zoneOutput_flags:
  "zoneOutput fp src now loc prev (g\<lparr>notifyOnEnter := a, notifyOnExit := b\<rparr>) = zoneOutput fp src now loc prev g"
  by (simp add: zoneOutput_def isInside_flags enterNotification_def exitNotification_def
        locationEvent_def)

lemma diffOutput_flags:
  "diffOutput fp src now loc prev (map (\<lambda>g. g\<lparr>notifyOnEnter := en g, notifyOnExit := ex g\<rparr>) zones)
     = diffOutput fp src now loc prev zones"
  by (induction zones) (simp_all add: diffOutput_def zoneOutput_flags)

lemma currentlyInside_flags:
  "currentlyInside fp (map (\<lambda>g. g\<lparr>notifyOnEnter := en g, notifyOnExit := ex g\<rparr>) zones) loc
     = currentlyInside fp zones loc"
  by (induction zones) (simp_all add: currentlyInside_def isInside_flags)

lemma handleLocationUpdate_flags:
  "handleLocationUpdate fp (map (\<lambda>g. g\<lparr>notifyOnEnter := en g, notifyOnExit := ex g\<rparr>) zones) now loc w
     = handleLocationUpdate fp zones now loc w"
  by (simp only: handleLocationUpdate_char diffOutput_flags currentlyInside_flags)

lemma checkInitialPosition_flags:
  "checkInitialPosition fp (map (\<lambda>g. g\<lparr>notifyOnEnter := en g, notifyOnExit := ex g\<rparr>) zones) now pos w
     = checkInitialPosition fp zones now pos w"
proof (cases pos)
  case None
  then show ?thesis by (simp add: checkInitialPosition_def)
next
  case (Some loc)
  then show ?thesis
    by (simp only: checkInitialPosition_Some diffOutput_flags currentlyInside_flags)
qed

lemma registered_regions_applyOutput:
  "registered_regions (applyOutput out w) = registered_regions w"
proof (induction out arbitrary: w)
  case Nil
  show ?case by (simp add: applyOutput_Nil)
next
  case (Cons p out)
  obtain n e where p: "p = (n, e)" by (cases p)
  show ?case
    by (simp add: p applyOutput_Cons Cons.IH logEvent_def sendAlertNotification_def)
qed

lemma registered_regions_checkInitialPosition:
  "registered_regions (checkInitialPosition fp zones now pos w) = registered_regions w"
proof (cases pos)
  case None
  then show ?thesis by (simp add: checkInitialPosition_def consoleError_def)
next
  case (Some loc)
  then show ?thesis
    by (simp add: checkInitialPosition_Some setZoneState_def registered_regions_applyOutput)
qed

lemma registered_regions_startGeofencing:
  assumes "fg a = granted" "bg a = granted" "notif a = granted"
  shows "registered_regions (snd (startGeofencing fp zones now a w)) = map toRegion zones"
  using assms
  by (simp add: startGeofencing_def Let_def startLocationWatching_def stopLocationWatching_def
        registered_regions_checkInitialPosition startGeofencingAsync_def consoleWarn_def
        split: option.splits)

text \<open>
  C10: the point-based passes do not read \<open>notifyOnEnter\<close> and \<open>notifyOnExit\<close>:
  changing the flags of the catalog changes nothing in what a pass does; a pass that finds
  the point inside a zone that was not occupied dispatches the ENTER notification of the
  zone although \<open>notifyOnEnter\<close> is false, and the EXIT notification of an occupied
  zone that the point has left although \<open>notifyOnExit\<close> is false. The regions that
  \<open>startGeofencing\<close> registers carry the flags of their zones.
\<close>

theorem point_pass_ignores_flags:
  "handleLocationUpdate fp (map (\<lambda>g. g\<lparr>notifyOnEnter := en g, notifyOnExit := ex g\<rparr>) zones) now loc w
     = handleLocationUpdate fp zones now loc w
   \<and> checkInitialPosition fp (map (\<lambda>g. g\<lparr>notifyOnEnter := en g, notifyOnExit := ex g\<rparr>) zones) now pos w
     = checkInitialPosition fp zones now pos w
   \<and> (g \<in> set zones \<and> \<not> notifyOnEnter g \<and> isInside fp loc g \<and> identifier g \<notin> occupancy w \<longrightarrow>
        enterNotification ''foreground_watch'' now g
          \<in> set (dispatched w (handleLocationUpdate fp zones now loc w))
        \<and> enterNotification ''initial_check'' now g
          \<in> set (dispatched w (checkInitialPosition fp zones now (Some loc) w)))
   \<and> (g \<in> set zones \<and> \<not> notifyOnExit g \<and> \<not> isInside fp loc g \<and> identifier g \<in> occupancy w \<longrightarrow>
        exitNotification ''foreground_watch'' now g
          \<in> set (dispatched w (handleLocationUpdate fp zones now loc w))
        \<and> exitNotification ''initial_check'' now g
          \<in> set (dispatched w (checkInitialPosition fp zones now (Some loc) w)))
   \<and> (fg a = granted \<and> bg a = granted \<and> notif a = granted \<longrightarrow>
        map (\<lambda>r. (r_identifier r, r_notifyOnEnter r, r_notifyOnExit r))
            (registered_regions (snd (startGeofencing fp zones now a w)))
          = map (\<lambda>g. (Some (identifier g), notifyOnEnter g, notifyOnExit g)) zones)"
proof -
  have reg: "fg a = granted \<and> bg a = granted \<and> notif a = granted \<longrightarrow>
        map (\<lambda>r. (r_identifier r, r_notifyOnEnter r, r_notifyOnExit r))
            (registered_regions (snd (startGeofencing fp zones now a w)))
          = map (\<lambda>g. (Some (identifier g), notifyOnEnter g, notifyOnExit g)) zones"
    by (auto simp: registered_regions_startGeofencing toRegion_def)
  have ent: "g \<in> set zones \<and> \<not> notifyOnEnter g \<and> isInside fp loc g \<and> identifier g \<notin> occupancy w \<longrightarrow>
        enterNotification ''foreground_watch'' now g
          \<in> set (dispatched w (handleLocationUpdate fp zones now loc w))
        \<and> enterNotification ''initial_check'' now g
          \<in> set (dispatched w (checkInitialPosition fp zones now (Some loc) w))"
    using enter_in_diffOutput [of g zones fp loc "insideZones (getZoneState now w)" _ now]
    by (simp add: dispatched_handleLocationUpdate dispatched_checkInitialPosition
          set_getZoneState del: set_map)
  have ext: "g \<in> set zones \<and> \<not> notifyOnExit g \<and> \<not> isInside fp loc g \<and> identifier g \<in> occupancy w \<longrightarrow>
        exitNotification ''foreground_watch'' now g
          \<in> set (dispatched w (handleLocationUpdate fp zones now loc w))
        \<and> exitNotification ''initial_check'' now g
          \<in> set (dispatched w (checkInitialPosition fp zones now (Some loc) w))"
    using exit_in_diffOutput [of g zones fp loc "insideZones (getZoneState now w)" _ now]
    by (simp add: dispatched_handleLocationUpdate dispatched_checkInitialPosition
          set_getZoneState del: set_map)
  from reg ent ext show ?thesis
    by (simp only: handleLocationUpdate_flags checkInitialPosition_flags simp_thms)
qed

theorem point_pass_ignores_flags_witness:
  "zoneC \<in> set exampleZones \<and> \<not> notifyOnEnter zoneC \<and> isInside exactMath pointC zoneC
   \<and> ''C'' \<notin> occupancy worldAB
   \<and> enterNotification ''foreground_watch'' ''t1'' zoneC
       \<in> set (sent (handleLocationUpdate exactMath exampleZones ''t1'' pointC worldAB))
   \<and> n_event (enterNotification ''foreground_watch'' ''t1'' zoneC) = ENTER
   \<and> zoneA \<in> set exampleZones \<and> \<not> notifyOnExit zoneA \<and> \<not> isInside exactMath pointC zoneA
   \<and> ''A'' \<in> occupancy worldAB
   \<and> exitNotification ''initial_check'' ''t1'' zoneA
       \<in> set (sent (checkInitialPosition exactMath exampleZones ''t1'' (Some pointC) worldAB))"
proof -
  have f: "\<not> notifyOnEnter zoneC" "\<not> notifyOnExit zoneA"
    by (simp_all add: zoneA_def zoneC_def)
  have m: "zoneC \<in> set exampleZones" "zoneA \<in> set exampleZones"
    by (simp_all add: exampleZones_def)
  have s: "sent v = dispatched worldAB v" if "sent v = sent worldAB @ ns" for v ns
    using that by (simp add: dispatched_def sent_worldAB)
  have s1: "sent (handleLocationUpdate exactMath exampleZones ''t1'' pointC worldAB)
      = dispatched worldAB (handleLocationUpdate exactMath exampleZones ''t1'' pointC worldAB)"
    by (rule s) (rule sent_handleLocationUpdate)
  have s2: "sent (checkInitialPosition exactMath exampleZones ''t1'' (Some pointC) worldAB)
      = dispatched worldAB (checkInitialPosition exactMath exampleZones ''t1'' (Some pointC) worldAB)"
    by (rule s) (rule sent_checkInitialPosition)
  have e: "n_event (enterNotification ''foreground_watch'' ''t1'' zoneC) = ENTER"
    by (simp add: enterNotification_def Let_def)
  show ?thesis
    using point_pass_ignores_flags [of exactMath _ _ exampleZones "''t1''" pointC worldAB _ zoneC]
      point_pass_ignores_flags [of exactMath _ _ exampleZones "''t1''" pointC worldAB _ zoneA]
      f m e isInside_examples(4,6)
    by (simp add: s1 s2 occupancy_worldAB ids_examples)
qed

end
